theory Spec2Isabelle
  imports Complex_Main
begin

section \<open>Phone normalizer (src/services/sms.service.ts)\<close>

text \<open>
  JavaScript strings are modelled as \<open>string\<close> (a list of characters). The regular
  expression class \<open>\D\<close> is everything but the ten ASCII digits, so
  \<open>phone.replace(/\D/g, '')\<close> keeps exactly the ASCII digits, in order.
\<close>

definition isDigit :: "char \<Rightarrow> bool" where
  "isDigit c = (c \<in> set ''0123456789'')"

definition stripNonDigits :: "string \<Rightarrow> string" where
  "stripNonDigits phone = filter isDigit phone"

definition startsWith :: "string \<Rightarrow> string \<Rightarrow> bool" where
  "startsWith s p = (take (length p) s = p)"

text \<open>
  \<open>normalizePhoneNumber\<close>: \<open>None\<close> is the source's \<open>null\<close>. The branches are in
  the order of the source; \<open>substring(0, 12)\<close> is \<open>take 12\<close> and \<open>substring(1)\<close> is
  \<open>drop 1\<close>. The \<open>typeof phone !== 'string'\<close> test is excluded by the type.
\<close>

definition normalizePhoneNumber :: "string \<Rightarrow> string option" where
  "normalizePhoneNumber phone =
     (if phone = [] then None
      else
        let cleaned = stripNonDigits phone in
        if cleaned = [] then None
        else if startsWith cleaned ''91'' then
          (if length cleaned = 12 then Some cleaned
           else if length cleaned > 12 then Some (take 12 cleaned)
           else None)
        else if length cleaned = 10 then Some (''91'' @ cleaned)
        else if length cleaned = 11 \<and> startsWith cleaned ''0'' then Some (''91'' @ drop 1 cleaned)
        else if length cleaned > 10 \<and> length cleaned \<le> 13 then
          (if startsWith cleaned ''0'' \<and> length cleaned = 11 then Some (''91'' @ drop 1 cleaned)
           else Some cleaned)
        else None)"

section \<open>JavaScript helpers\<close>

text \<open>
  A nullable string of the source is a \<open>string option\<close>. In a boolean context
  (\<open>!x\<close>, \<open>x || y\<close>) both \<open>null\<close>/\<open>undefined\<close> and the empty string are falsy.
\<close>

fun falsy :: "string option \<Rightarrow> bool" where
  "falsy None = True"
| "falsy (Some s) = (s = [])"

text \<open>\<open>a || b\<close> on nullable strings, and \<open>a || 'default'\<close>.\<close>

fun orOpt :: "string option \<Rightarrow> string option \<Rightarrow> string option" where
  "orOpt None b = b"
| "orOpt (Some s) b = (if s = [] then b else Some s)"

fun orElse :: "string option \<Rightarrow> string \<Rightarrow> string" where
  "orElse None d = d"
| "orElse (Some s) d = (if s = [] then d else s)"

text \<open>
  \<open>String.prototype.trim\<close> on strings of 8-bit code units: the white space and line
  terminator characters below 256 are tab, line feed, vertical tab, form feed, carriage
  return, space and the no-break space.
\<close>

definition isWhiteSpace :: "char \<Rightarrow> bool" where
  "isWhiteSpace c = (c \<in> set [CHR 0x09, CHR 0x0A, CHR 0x0B, CHR 0x0C, CHR 0x0D, CHR 0x20,
                              CHR 0xA0])"

definition trim :: "string \<Rightarrow> string" where
  "trim s = rev (dropWhile isWhiteSpace (rev (dropWhile isWhiteSpace s)))"

text \<open>\<open>s.includes(p)\<close> (Prisma's \<open>contains\<close> filter) and \<open>s.slice(-10)\<close>.\<close>

fun contains :: "string \<Rightarrow> string \<Rightarrow> bool" where
  "contains [] p = (p = [])"
| "contains (c # s) p = (startsWith (c # s) p \<or> contains s p)"

definition lastTen :: "string \<Rightarrow> string" where
  "lastTen s = drop (length s - 10) s"

text \<open>
  The decimal text of an integer, as a template literal \<open>${n}\<close> writes it.
\<close>

fun showNat :: "nat \<Rightarrow> string" where
  "showNat n =
     (if n < 10 then [''0123456789'' ! n]
      else showNat (n div 10) @ [''0123456789'' ! (n mod 10)])"

declare showNat.simps [simp del]

definition showInt :: "int \<Rightarrow> string" where
  "showInt i = (if i < 0 then ''-'' @ showNat (nat (- i)) else showNat (nat i))"

section \<open>Data model (prisma schema)\<close>

datatype AppointmentStatus = SCHEDULED | OTP_SENT | VERIFIED | COMPLETED | CANCELLED

text \<open>
  An appointment row, with the two included relations the OTP operations read
  (\<open>engineer.name\<close>, \<open>client.primaryContact\<close>) flattened into it. Timestamps are
  milliseconds since the epoch, as \<open>Date.getTime()\<close> gives them.
\<close>

record appointment =
  engineerId :: string
  engineerName :: string
  clientPrimaryContact :: string
  otpMobileNumber :: "string option"
  status :: AppointmentStatus
  otp :: "string option"
  otpExpiresAt :: "int option"
  otpSentAt :: "int option"
  otpAttempts :: int
  verifiedAt :: "int option"
  feedback :: "string option"

datatype VisitStatus = PENDING | OTP_VERIFIED | VISIT_COMPLETED

text \<open>
  A worker-visit row (\<open>VISIT_COMPLETED\<close> is the enum value \<open>COMPLETED\<close> of
  \<open>VisitStatus\<close>), with the included \<open>client.primaryContact\<close>, \<open>client.name\<close> and
  \<open>engineer.name\<close>. The visit date is a stored, valid \<open>Date\<close>: its time value.
\<close>

record workerVisit =
  v_engineerId :: string
  v_clientId :: string
  v_engineerName :: string
  v_clientName :: string
  v_clientPrimaryContact :: string
  v_visitDate :: int
  v_siteAddress :: "string option"
  v_otp :: "string option"
  v_otpSentAt :: "int option"
  v_otpExpiresAt :: "int option"
  v_status :: VisitStatus
  v_verifiedAt :: "int option"
  v_workerCount :: "int option"
  v_remarks :: "string option"

record SMSLog =
  sms_phone :: string
  sms_message :: string
  sms_status :: string
  sms_providerId :: "string option"
  sms_error :: "string option"

record client =
  c_name :: string
  c_primaryContact :: string
  c_isActive :: bool

datatype Role = ADMIN | ENGINEER

record user =
  u_name :: string
  u_role :: Role
  u_isActive :: bool

text \<open>The persistence store: the tables the OTP layer reads and writes.\<close>

record world =
  appointments :: "string \<rightharpoonup> appointment"
  workerVisits :: "string \<rightharpoonup> workerVisit"
  clients :: "string \<rightharpoonup> client"
  users :: "string \<rightharpoonup> user"
  smsLogs :: "SMSLog list"
  adminPhoneSetting :: "string option"

section \<open>The environment of one request\<close>

text \<open>
  The requests sent to the external provider, without the constant configuration they
  carry (auth key, sender id, route): the templated and the plain message call of
  \<open>sendSMS\<close>, the OTP call of \<open>sendOTPViaMSG91\<close>, and the widget's
  \<open>verifyAccessToken\<close> call.
\<close>

datatype request =
    FlowTemplate string string string
  | FlowDirect string string
  | OtpRequest string string string
  | VerifyAccessToken string

record responseData =
  r_type :: string
  r_request_id :: "string option"
  r_message_id :: "string option"
  r_message :: "string option"

text \<open>
  The outcome of \<open>axios.post\<close>: a response, or an exception carrying
  \<open>error.response?.data\<close> (when the provider answered with an error status) and
  \<open>error.message\<close>.
\<close>

datatype httpResult = Response responseData | HttpError "responseData option" string

record MSG91OTPPayload =
  t_phone :: string
  t_appointmentId :: "string option"
  t_visitId :: "string option"
  t_purpose :: string

text \<open>
  What a request handler takes from outside the program: the clock, the random digits
  drawn by \<open>generateOTP\<close>, the provider's answers, the result of the JWT library's
  \<open>jwt.verify\<close> with the configured secret (\<open>None\<close> when it throws), the identifier
  given to a created row, the runtime's \<open>new Date(s)\<close> on a string of the request body
  (its time value, \<open>None\<close> for an invalid date), the date formatting of \<open>date-fns\<close>
  on a valid date, and the configuration.
\<close>

record env =
  now :: int
  randomDigit :: "nat \<Rightarrow> nat"
  httpPost :: "request \<Rightarrow> httpResult"
  jwtVerify :: "string \<Rightarrow> MSG91OTPPayload option"
  newId :: string
  parseDate :: "string \<Rightarrow> int option"
  formatDate :: "int \<Rightarrow> string"
  templateId :: "string option"
  otpTemplateId :: "string option"
  envAdminPhone :: "string option"
  otpLength :: nat
  expiryMinutes :: int
  workerVisitExpiryHours :: int

text \<open>What a handler does outside the store: it draws an OTP, it calls the provider.\<close>

datatype event = OTPGenerated string | HttpPost request

section \<open>OTP utilities (utils/otp.ts) and widget token verification (utils/jwt.ts)\<close>

text \<open>
  \<open>generateOTP\<close> with the default length: the \<open>i\<close>-th digit is
  \<open>digits[Math.floor(Math.random() * 10)]\<close>, an index between 0 and 9, whatever the
  environment's \<open>randomDigit\<close> gives.
\<close>

definition generateOTP :: "env \<Rightarrow> string" where
  "generateOTP e = map (\<lambda>i. ''0123456789'' ! (randomDigit e i mod 10)) [0..<otpLength e]"

text \<open>
  \<open>setMinutes(getMinutes() + m)\<close> and \<open>setHours(getHours() + h)\<close> on the current
  date, in a time zone without daylight-saving shifts.
\<close>

definition getOTPExpiry :: "env \<Rightarrow> int" where
  "getOTPExpiry e = now e + expiryMinutes e * 60000"

definition getWorkerVisitOTPExpiry :: "env \<Rightarrow> int" where
  "getWorkerVisitOTPExpiry e = now e + workerVisitExpiryHours e * 3600000"

definition isOTPExpired :: "env \<Rightarrow> int \<Rightarrow> bool" where
  "isOTPExpired e expiryDate = (now e > expiryDate)"

definition verifyMSG91OTPToken :: "env \<Rightarrow> string \<Rightarrow> MSG91OTPPayload option" where
  "verifyMSG91OTPToken e token = jwtVerify e token"

section \<open>SMS gateway client (src/services/sms.service.ts)\<close>

text \<open>
  Each gateway function returns its boolean, the SMS log rows it wrote and the provider
  calls it made, in order. The store itself is assumed not to fail.
\<close>

definition failedLog :: "string \<Rightarrow> string \<Rightarrow> string \<Rightarrow> SMSLog" where
  "failedLog ph m err =
     \<lparr>sms_phone = ph, sms_message = m, sms_status = ''failed'',
      sms_providerId = None, sms_error = Some err\<rparr>"

definition errorText :: "responseData option \<Rightarrow> string \<Rightarrow> string" where
  "errorText d m =
     orElse (orOpt (case d of None \<Rightarrow> None | Some r \<Rightarrow> r_message r) (Some m)) ''Unknown error''"

definition sendSMS :: "env \<Rightarrow> string \<Rightarrow> string \<Rightarrow> string option \<Rightarrow> bool \<times> SMSLog list \<times> event list" where
  "sendSMS e to message tid =
     (case normalizePhoneNumber to of
        None \<Rightarrow> (False, [failedLog to message ''Invalid phone number format''], [])
      | Some normalizedPhone \<Rightarrow>
          let req = (case orOpt tid (templateId e) of
                       Some t \<Rightarrow> FlowTemplate t normalizedPhone message
                     | None \<Rightarrow> FlowDirect normalizedPhone message)
          in (case httpPost e req of
                Response d \<Rightarrow>
                  (r_type d = ''success'',
                   [\<lparr>sms_phone = normalizedPhone, sms_message = message,
                     sms_status = (if r_type d = ''success'' then ''sent'' else ''failed''),
                     sms_providerId = orOpt (r_request_id d) (r_message_id d),
                     sms_error = None\<rparr>],
                   [HttpPost req])
              | HttpError d m \<Rightarrow>
                  (False, [failedLog normalizedPhone message (errorText d m)], [HttpPost req])))"

definition otpFallbackMessage :: "string \<Rightarrow> string" where
  "otpFallbackMessage code =
     ''Your OTP is: '' @ code @ ''. Valid for 15 minutes. Do not share with anyone.''"

definition sendOTPViaMSG91 :: "env \<Rightarrow> string \<Rightarrow> string \<Rightarrow> string option \<Rightarrow> bool \<times> SMSLog list \<times> event list" where
  "sendOTPViaMSG91 e ph code tid =
     (case normalizePhoneNumber ph of
        None \<Rightarrow> (False, [failedLog ph (''OTP: '' @ code) ''Invalid phone number format''], [])
      | Some normalizedPhone \<Rightarrow>
          (case orOpt tid (otpTemplateId e) of
             Some t \<Rightarrow>
               let req = OtpRequest t normalizedPhone code
               in (case httpPost e req of
                     Response d \<Rightarrow>
                       (r_type d = ''success'',
                        [\<lparr>sms_phone = normalizedPhone, sms_message = ''OTP: '' @ code,
                          sms_status = (if r_type d = ''success'' then ''sent'' else ''failed''),
                          sms_providerId = r_request_id d,
                          sms_error = (if r_type d = ''success'' then None
                                       else Some (orElse (r_message d) ''Unknown error''))\<rparr>],
                        [HttpPost req])
                   | HttpError d m \<Rightarrow>
                       (case sendSMS e normalizedPhone (otpFallbackMessage code) None of
                          (sent, logs, evs) \<Rightarrow>
                            (sent,
                             failedLog normalizedPhone (''OTP: '' @ code) (errorText d m) # logs,
                             HttpPost req # evs)))
           | None \<Rightarrow> sendSMS e normalizedPhone (otpFallbackMessage code) None))"

definition companyName :: string where
  "companyName = ''Concreexpo''"

definition sendVisitOTP :: "env \<Rightarrow> string \<Rightarrow> string \<Rightarrow> string \<Rightarrow> bool \<times> SMSLog list \<times> event list" where
  "sendVisitOTP e clientPhone code engName =
     (case normalizePhoneNumber clientPhone of
        None \<Rightarrow>
          (False, [failedLog clientPhone (''OTP: '' @ code) ''Invalid phone number format''], [])
      | Some normalizedPhone \<Rightarrow>
          let message = ''Your OTP for visit verification with '' @ engName @ '' is: '' @ code
                        @ ''. Valid for 15 minutes. Share this with the engineer. - '' @ companyName
          in case sendOTPViaMSG91 e normalizedPhone code None of
               (otpSent, logs1, evs1) \<Rightarrow>
                 if otpSent then (otpSent, logs1, evs1)
                 else (case sendSMS e normalizedPhone message None of
                         (smsSent, logs2, evs2) \<Rightarrow>
                           (smsSent,
                            logs1 @ logs2 @
                              (if smsSent then []
                               else [failedLog normalizedPhone (''OTP: '' @ code)
                                       ''Both OTP API and regular SMS failed'']),
                            evs1 @ evs2)))"

definition sendWorkerCountOTPToClient :: "env \<Rightarrow> string \<Rightarrow> string \<Rightarrow> string \<Rightarrow> string \<Rightarrow> bool \<times> SMSLog list \<times> event list" where
  "sendWorkerCountOTPToClient e clientPhone code siteName date =
     (let message = ''Worker count verification for '' @ siteName @ '' on '' @ date
                    @ ''. Your OTP is: '' @ code @ ''. Valid for 24 hours. - '' @ companyName
      in case sendOTPViaMSG91 e clientPhone code None of
           (otpSent, logs1, evs1) \<Rightarrow>
             if otpSent then (otpSent, logs1, evs1)
             else (case sendSMS e clientPhone message None of
                     (sent, logs2, evs2) \<Rightarrow> (sent, logs1 @ logs2, evs1 @ evs2)))"

definition sendWorkerCountOTPToAdmin :: "env \<Rightarrow> string \<Rightarrow> string \<Rightarrow> string \<Rightarrow> string \<Rightarrow> string \<Rightarrow> bool \<times> SMSLog list \<times> event list" where
  "sendWorkerCountOTPToAdmin e adminPhone code engName clientName date =
     sendSMS e adminPhone
       (''Worker visit created by '' @ engName @ '' for '' @ clientName @ '' on '' @ date
        @ ''. Verification OTP: '' @ code @ ''. - '' @ companyName) None"

section \<open>HTTP replies\<close>

text \<open>
  The reply of a handler: the status code, the \<open>error\<close> or \<open>message\<close> text of the
  JSON body and the fields of the body the OTP layer's callers read. The last two fields
  are the per-recipient delivery results of the worker-visit resend reply.
\<close>

record reply =
  httpStatus :: nat
  msg :: string
  retryAfter :: "int option"
  attemptsRemaining :: "int option"
  details :: "string option"
  clientOtpSent :: "bool option"
  adminOtpSent :: "bool option"

definition respond :: "nat \<Rightarrow> string \<Rightarrow> reply" where
  "respond code m =
     \<lparr>httpStatus = code, msg = m, retryAfter = None, attemptsRemaining = None, details = None,
      clientOtpSent = None, adminOtpSent = None\<rparr>"

definition addLogs :: "SMSLog list \<Rightarrow> world \<Rightarrow> world" where
  "addLogs logs w = w\<lparr>smsLogs := smsLogs w @ logs\<rparr>"

section \<open>Appointment OTP state machine (src/controllers/appointment.controller.ts)\<close>

text \<open>
  Every handler takes the environment, the path parameter, the request body's fields,
  the authenticated user id and the store, and returns the reply, the store after the
  request and the events of the request in order.
\<close>

definition recipientPhone :: "appointment \<Rightarrow> string" where
  "recipientPhone a = orElse (otpMobileNumber a) (clientPrimaryContact a)"

definition cooldownPeriod :: int where
  "cooldownPeriod = 60 * 1000"

text \<open>
  \<open>Math.ceil((cooldownPeriod - timeSinceLastOTP) / 1000)\<close>: both operands are
  integers, so the ceiling of the quotient is \<open>- ((- k) div 1000)\<close>.
\<close>

definition remainingSeconds :: "int \<Rightarrow> int" where
  "remainingSeconds timeSinceLastOTP = - ((- (cooldownPeriod - timeSinceLastOTP)) div 1000)"

text \<open>
  The 429 reply of both resend handlers:
  \<open>Please wait ${remainingSeconds} seconds before requesting a new OTP\<close> with
  \<open>retryAfter: remainingSeconds\<close>.
\<close>

definition rateLimitReply :: "int \<Rightarrow> reply" where
  "rateLimitReply secs =
     (respond 429 (''Please wait '' @ showInt secs @ '' seconds before requesting a new OTP''))
       \<lparr>retryAfter := Some secs\<rparr>"

text \<open>
  The cooldown guard of both resend handlers: \<open>Some\<close> of the seconds to wait when an
  OTP was sent less than \<open>cooldownPeriod\<close> milliseconds ago (a \<open>Date\<close> is always
  truthy, so the guard is entered whenever a send time is recorded).
\<close>

definition rateLimited :: "env \<Rightarrow> int option \<Rightarrow> int option" where
  "rateLimited e sentAt =
     (case sentAt of
        None \<Rightarrow> None
      | Some t \<Rightarrow>
          if now e - t < cooldownPeriod then Some (remainingSeconds (now e - t)) else None)"

definition sendOTP :: "env \<Rightarrow> string \<Rightarrow> string \<Rightarrow> world \<Rightarrow> reply \<times> world \<times> event list" where
  "sendOTP e ident userId w =
     (case appointments w ident of
        None \<Rightarrow> (respond 404 ''Appointment not found'', w, [])
      | Some a \<Rightarrow>
          if engineerId a \<noteq> userId then (respond 403 ''Access denied'', w, [])
          else if status a = COMPLETED then
            (respond 400 ''Appointment already completed'', w, [])
          else
            let code = generateOTP e; otpExpiry = getOTPExpiry e; ph = recipientPhone a in
            if trim ph = [] then
              (respond 400 ''Client phone number is missing'', w, [OTPGenerated code])
            else
              (case sendVisitOTP e ph code (engineerName a) of
                 (otpSent, logs, evs) \<Rightarrow>
                   if otpSent then
                     (respond 200 ''OTP sent successfully'',
                      (addLogs logs w)\<lparr>appointments := (appointments w)(ident \<mapsto>
                         a\<lparr>otp := Some code, otpExpiresAt := Some otpExpiry,
                           otpSentAt := Some (now e), otpAttempts := 0, status := OTP_SENT\<rparr>)\<rparr>,
                      OTPGenerated code # evs)
                   else
                     (respond 500
                        ''Failed to send OTP. Please check the phone number and SMS configuration.'',
                      addLogs logs w, OTPGenerated code # evs)))"

text \<open>
  The failure reply of \<open>resendOTP\<close> looks up the most recent failed log row whose phone
  contains the last ten digits of the recipient; the rows are kept in insertion order.
\<close>

definition recentFailure :: "SMSLog list \<Rightarrow> string \<Rightarrow> string" where
  "recentFailure logs ph =
     (case filter (\<lambda>l. contains (sms_phone l) (lastTen (stripNonDigits ph))
                        \<and> sms_status l = ''failed'') (rev logs) of
        [] \<Rightarrow> ''SMS service unavailable''
      | l # _ \<Rightarrow> orElse (sms_error l) ''SMS service unavailable'')"

definition resendOTP :: "env \<Rightarrow> string \<Rightarrow> string \<Rightarrow> world \<Rightarrow> reply \<times> world \<times> event list" where
  "resendOTP e ident userId w =
     (case appointments w ident of
        None \<Rightarrow> (respond 404 ''Appointment not found'', w, [])
      | Some a \<Rightarrow>
          if engineerId a \<noteq> userId then (respond 403 ''Access denied'', w, [])
          else if status a = COMPLETED then
            (respond 400 ''Appointment already completed'', w, [])
          else
          (case rateLimited e (otpSentAt a) of
             Some secs \<Rightarrow>
               (rateLimitReply secs, w, [])
           | None \<Rightarrow>
            let code = generateOTP e; otpExpiry = getOTPExpiry e; ph = recipientPhone a in
            if trim ph = [] then
              (respond 400 ''Client phone number is missing'', w, [OTPGenerated code])
            else
              (case sendVisitOTP e ph code (engineerName a) of
                 (otpSent, logs, evs) \<Rightarrow>
                   if otpSent then
                     (respond 200 ''OTP resent successfully'',
                      (addLogs logs w)\<lparr>appointments := (appointments w)(ident \<mapsto>
                         a\<lparr>otp := Some code, otpExpiresAt := Some otpExpiry,
                           otpSentAt := Some (now e), otpAttempts := 0, status := OTP_SENT\<rparr>)\<rparr>,
                      OTPGenerated code # evs)
                   else
                     ((respond 500
                         ''Failed to resend OTP. Please check the phone number and SMS configuration.'')
                        \<lparr>details := Some (recentFailure (smsLogs w @ logs) ph)\<rparr>,
                      addLogs logs w, OTPGenerated code # evs))))"

text \<open>
  Past the first check the access token is a non-empty string, which
  \<open>orElse accessToken []\<close> returns.
\<close>

definition verifyOTPWithWidget :: "env \<Rightarrow> string \<Rightarrow> string option \<Rightarrow> string \<Rightarrow> world \<Rightarrow> reply \<times> world \<times> event list" where
  "verifyOTPWithWidget e ident accessToken userId w =
     (if falsy accessToken then (respond 400 ''Access token is required'', w, [])
      else
        case verifyMSG91OTPToken e (orElse accessToken []) of
          None \<Rightarrow> (respond 400 ''Invalid or expired access token'', w, [])
        | Some tokenPayload \<Rightarrow>
            if t_appointmentId tokenPayload \<noteq> Some ident then
              (respond 400 ''Invalid or expired access token'', w, [])
            else
              let req = VerifyAccessToken (orElse accessToken []) in
              (case httpPost e req of
                 HttpError None m \<Rightarrow> (respond 500 ''Failed to verify OTP'', w, [HttpPost req])
               | HttpError (Some d) m \<Rightarrow>
                   ((respond 400 ''OTP verification failed'')
                      \<lparr>details := Some (orElse (r_message d) ''Invalid OTP'')\<rparr>, w, [HttpPost req])
               | Response d \<Rightarrow>
                   if r_type d \<noteq> ''success'' then
                     ((respond 400 ''OTP verification failed'')
                        \<lparr>details := Some (orElse (r_message d) ''Invalid OTP'')\<rparr>, w, [HttpPost req])
                   else
                     (case appointments w ident of
                        None \<Rightarrow> (respond 404 ''Appointment not found'', w, [HttpPost req])
                      | Some a \<Rightarrow>
                          if engineerId a \<noteq> userId then
                            (respond 403 ''Access denied'', w, [HttpPost req])
                          else
                            (respond 200 ''OTP verified successfully'',
                             w\<lparr>appointments := (appointments w)(ident \<mapsto>
                                a\<lparr>status := VERIFIED, verifiedAt := Some (now e),
                                  otpAttempts := 0\<rparr>)\<rparr>,
                             [HttpPost req]))))"

text \<open>The fixed code the inline verification accepts besides the stored one.\<close>

definition testOTP :: string where
  "testOTP = ''000000''"

definition verifyOTP :: "env \<Rightarrow> string \<Rightarrow> string option \<Rightarrow> string \<Rightarrow> world \<Rightarrow> reply \<times> world \<times> event list" where
  "verifyOTP e ident code userId w =
     (if falsy code then (respond 400 ''OTP is required'', w, [])
      else
        case appointments w ident of
          None \<Rightarrow> (respond 404 ''Appointment not found'', w, [])
        | Some a \<Rightarrow>
            if engineerId a \<noteq> userId then (respond 403 ''Access denied'', w, [])
            else if falsy (otp a) \<or> otpExpiresAt a = None then
              (respond 400 ''OTP not sent yet'', w, [])
            else if isOTPExpired e (the (otpExpiresAt a)) then
              (respond 400 ''OTP has expired. Please request a new one.'', w, [])
            else if otpAttempts a \<ge> 3 then
              (respond 400 ''Maximum OTP attempts exceeded. Please request a new OTP.'', w, [])
            else if otp a \<noteq> code \<and> code \<noteq> Some testOTP then
              ((respond 400 ''Invalid OTP'')\<lparr>attemptsRemaining := Some (2 - otpAttempts a)\<rparr>,
               w\<lparr>appointments := (appointments w)(ident \<mapsto>
                  a\<lparr>otpAttempts := otpAttempts a + 1\<rparr>)\<rparr>,
               [])
            else
              (respond 200 ''OTP verified successfully'',
               w\<lparr>appointments := (appointments w)(ident \<mapsto>
                  a\<lparr>status := VERIFIED, verifiedAt := Some (now e),
                    otpAttempts := otpAttempts a + 1\<rparr>)\<rparr>,
               []))"

definition submitFeedback :: "env \<Rightarrow> string \<Rightarrow> string option \<Rightarrow> string \<Rightarrow> world \<Rightarrow> reply \<times> world \<times> event list" where
  "submitFeedback e ident fb userId w =
     (if falsy fb \<or> length (trim (orElse fb [])) < 10 then
        (respond 400 ''Feedback must be at least 10 characters'', w, [])
      else
        case appointments w ident of
          None \<Rightarrow> (respond 404 ''Appointment not found'', w, [])
        | Some a \<Rightarrow>
            if engineerId a \<noteq> userId then (respond 403 ''Access denied'', w, [])
            else if status a \<noteq> VERIFIED then
              (respond 400 ''Appointment must be verified first'', w, [])
            else
              (respond 200 ''Feedback submitted successfully'',
               w\<lparr>appointments := (appointments w)(ident \<mapsto>
                  a\<lparr>feedback := Some (trim (orElse fb [])), status := COMPLETED\<rparr>)\<rparr>,
               []))"

section \<open>Worker-visit OTP state machine (controllers/workerVisit.controller.ts)\<close>

text \<open>
  \<open>adminPhoneSetting?.value || process.env.ADMIN_PHONE || ''\<close>
\<close>

definition adminPhoneOf :: "env \<Rightarrow> world \<Rightarrow> string" where
  "adminPhoneOf e w = orElse (orOpt (adminPhoneSetting w) (envAdminPhone e)) []"

text \<open>
  \<open>createVisit\<close>: the body's \<open>clientId\<close>, \<open>engineerId\<close>, \<open>visitDate\<close> and
  \<open>siteAddress\<close>, then the authenticated user's id and role. The results of the two
  delivery calls are not bound to anything in the source. With a \<open>visitDate\<close> that is
  not a date, \<open>new Date(visitDate)\<close> is an invalid date, the row is not created and the
  handler's \<open>catch\<close> answers with status 500, after the OTP was drawn and before any
  delivery.
\<close>

definition createVisit :: "env \<Rightarrow> string option \<Rightarrow> string option \<Rightarrow> string option \<Rightarrow> string option \<Rightarrow> string \<Rightarrow> Role \<Rightarrow> world \<Rightarrow> reply \<times> world \<times> event list" where
  "createVisit e clientId engId visitDate siteAddress userId userRole w =
     (if falsy clientId \<or> falsy visitDate then
        (respond 400 ''Client and visit date are required'', w, [])
      else
        let targetEngineerId = (if userRole = ADMIN \<and> \<not> falsy engId then orElse engId [] else userId) in
        if targetEngineerId = [] then (respond 400 ''Engineer ID is required'', w, [])
        else
          case clients w (orElse clientId []) of
            None \<Rightarrow> (respond 404 ''Client not found or inactive'', w, [])
          | Some cl \<Rightarrow>
              if \<not> c_isActive cl then (respond 404 ''Client not found or inactive'', w, [])
              else
                (case users w targetEngineerId of
                   None \<Rightarrow> (respond 404 ''Engineer not found or inactive'', w, [])
                 | Some eng \<Rightarrow>
                     if u_role eng \<noteq> ENGINEER then
                       (respond 404 ''Engineer not found or inactive'', w, [])
                     else if \<not> u_isActive eng then
                       (respond 404 ''Engineer not found or inactive'', w, [])
                     else
                     (case parseDate e (orElse visitDate []) of
                        None \<Rightarrow>
                          (respond 500 ''Failed to create visit'', w, [OTPGenerated (generateOTP e)])
                      | Some date \<Rightarrow>
                       let code = generateOTP e;
                           otpExpiry = getWorkerVisitOTPExpiry e;
                           visit = \<lparr>v_engineerId = targetEngineerId,
                                    v_clientId = orElse clientId [],
                                    v_engineerName = u_name eng,
                                    v_clientName = c_name cl,
                                    v_clientPrimaryContact = c_primaryContact cl,
                                    v_visitDate = date,
                                    v_siteAddress = siteAddress,
                                    v_otp = Some code,
                                    v_otpSentAt = Some (now e),
                                    v_otpExpiresAt = Some otpExpiry,
                                    v_status = PENDING,
                                    v_verifiedAt = None,
                                    v_workerCount = None,
                                    v_remarks = None\<rparr>;
                           w1 = w\<lparr>workerVisits := (workerVisits w)(newId e \<mapsto> visit)\<rparr>;
                           adminPhone = adminPhoneOf e w;
                           dateStr = formatDate e date
                       in (case sendWorkerCountOTPToClient e (c_primaryContact cl) code (c_name cl) dateStr of
                             (sentC, logs1, evs1) \<Rightarrow>
                               (case (if adminPhone \<noteq> [] then
                                        sendWorkerCountOTPToAdmin e adminPhone code (u_name eng) (c_name cl) dateStr
                                      else (False, [], [])) of
                                  (sentA, logs2, evs2) \<Rightarrow>
                                    (respond 201 ''Visit created and OTP sent to client and admin'',
                                     addLogs (logs1 @ logs2) w1,
                                     OTPGenerated code # evs1 @ evs2))))))"

definition resendOTP_visit :: "env \<Rightarrow> string \<Rightarrow> string \<Rightarrow> world \<Rightarrow> reply \<times> world \<times> event list" where
  "resendOTP_visit e ident userId w =
     (case workerVisits w ident of
        None \<Rightarrow> (respond 404 ''Visit not found'', w, [])
      | Some v \<Rightarrow>
          if v_engineerId v \<noteq> userId then (respond 403 ''Access denied'', w, [])
          else if v_status v = VISIT_COMPLETED then
            (respond 400 ''Worker count already submitted for this visit'', w, [])
          else
          (case rateLimited e (v_otpSentAt v) of
             Some secs \<Rightarrow>
               (rateLimitReply secs, w, [])
           | None \<Rightarrow>
               let code = generateOTP e;
                   otpExpiry = getWorkerVisitOTPExpiry e;
                   adminPhone = adminPhoneOf e w;
                   dateStr = formatDate e (v_visitDate v)
               in (case sendWorkerCountOTPToClient e (v_clientPrimaryContact v) code (v_clientName v) dateStr of
                     (sentC, logs1, evs1) \<Rightarrow>
                       (case (if adminPhone \<noteq> [] then
                                sendWorkerCountOTPToAdmin e adminPhone code (v_engineerName v) (v_clientName v) dateStr
                              else (False, [], [])) of
                          (sentA, logs2, evs2) \<Rightarrow>
                            if sentC then
                              ((respond 200 ''OTP resent successfully'')
                                 \<lparr>clientOtpSent := Some sentC,
                                  adminOtpSent := (if adminPhone \<noteq> [] then Some sentA else None)\<rparr>,
                               (addLogs (logs1 @ logs2) w)\<lparr>workerVisits := (workerVisits w)(ident \<mapsto>
                                  v\<lparr>v_otp := Some code, v_otpExpiresAt := Some otpExpiry,
                                    v_otpSentAt := Some (now e), v_status := PENDING\<rparr>)\<rparr>,
                               OTPGenerated code # evs1 @ evs2)
                            else
                              (respond 500
                                 ''Failed to resend OTP. Please check the phone number and SMS configuration.'',
                               addLogs (logs1 @ logs2) w,
                               OTPGenerated code # evs1 @ evs2)))))"

text \<open>
  The body's \<open>workerCount\<close> is an optional integer: it is falsy when absent or 0. An
  absent \<open>remarks\<close> leaves the stored column as it is.
\<close>

fun falsyNum :: "int option \<Rightarrow> bool" where
  "falsyNum None = True"
| "falsyNum (Some n) = (n = 0)"

definition recordCount :: "env \<Rightarrow> int \<Rightarrow> string option \<Rightarrow> workerVisit \<Rightarrow> workerVisit" where
  "recordCount e n remarks v =
     v\<lparr>v_workerCount := Some n,
       v_remarks := (case remarks of None \<Rightarrow> v_remarks v | Some r \<Rightarrow> Some r),
       v_status := OTP_VERIFIED,
       v_verifiedAt := Some (now e)\<rparr>"

definition submitWorkerCountWithWidget :: "env \<Rightarrow> string \<Rightarrow> string option \<Rightarrow> int option \<Rightarrow> string option \<Rightarrow> string \<Rightarrow> world \<Rightarrow> reply \<times> world \<times> event list" where
  "submitWorkerCountWithWidget e ident accessToken workerCount remarks userId w =
     (if falsy accessToken \<or> falsyNum workerCount then
        (respond 400 ''Access token and worker count are required'', w, [])
      else if the workerCount \<le> 0 then (respond 400 ''Worker count must be positive'', w, [])
      else
        case verifyMSG91OTPToken e (orElse accessToken []) of
          None \<Rightarrow> (respond 400 ''Invalid or expired access token'', w, [])
        | Some tokenPayload \<Rightarrow>
            if t_visitId tokenPayload \<noteq> Some ident then
              (respond 400 ''Invalid or expired access token'', w, [])
            else
              let req = VerifyAccessToken (orElse accessToken []) in
              (case httpPost e req of
                 HttpError None m \<Rightarrow>
                   (respond 500 ''Failed to submit worker count'', w, [HttpPost req])
               | HttpError (Some d) m \<Rightarrow>
                   ((respond 400 ''OTP verification failed'')
                      \<lparr>details := Some (orElse (r_message d) ''Invalid OTP'')\<rparr>, w, [HttpPost req])
               | Response d \<Rightarrow>
                   if r_type d \<noteq> ''success'' then
                     ((respond 400 ''OTP verification failed'')
                        \<lparr>details := Some (orElse (r_message d) ''Invalid OTP'')\<rparr>, w, [HttpPost req])
                   else
                     (case workerVisits w ident of
                        None \<Rightarrow> (respond 404 ''Visit not found'', w, [HttpPost req])
                      | Some v \<Rightarrow>
                          if v_engineerId v \<noteq> userId then
                            (respond 403 ''Access denied'', w, [HttpPost req])
                          else if v_status v = VISIT_COMPLETED then
                            (respond 400 ''Worker count already submitted for this visit'', w,
                             [HttpPost req])
                          else
                            (respond 200 ''Worker count submitted successfully'',
                             w\<lparr>workerVisits := (workerVisits w)(ident \<mapsto>
                                recordCount e (the workerCount) remarks v)\<rparr>,
                             [HttpPost req]))))"

definition submitWorkerCount :: "env \<Rightarrow> string \<Rightarrow> string option \<Rightarrow> int option \<Rightarrow> string option \<Rightarrow> string \<Rightarrow> world \<Rightarrow> reply \<times> world \<times> event list" where
  "submitWorkerCount e ident code workerCount remarks userId w =
     (if falsy code \<or> falsyNum workerCount then
        (respond 400 ''OTP and worker count are required'', w, [])
      else if the workerCount \<le> 0 then (respond 400 ''Worker count must be positive'', w, [])
      else
        case workerVisits w ident of
          None \<Rightarrow> (respond 404 ''Visit not found'', w, [])
        | Some v \<Rightarrow>
            if v_engineerId v \<noteq> userId then (respond 403 ''Access denied'', w, [])
            else if v_status v = VISIT_COMPLETED then
              (respond 400 ''Worker count already submitted for this visit'', w, [])
            else if (case v_otpExpiresAt v of None \<Rightarrow> True | Some t \<Rightarrow> isOTPExpired e t) then
              (respond 400 ''OTP has expired. Please create a new visit.'', w, [])
            else if v_otp v \<noteq> code \<and> code \<noteq> Some testOTP then
              (respond 400 ''Invalid OTP'', w, [])
            else
              (respond 200 ''Worker count submitted successfully'',
               w\<lparr>workerVisits := (workerVisits w)(ident \<mapsto>
                  recordCount e (the workerCount) remarks v)\<rparr>,
               []))"

section \<open>Reading a handler's result; the error replies of the OTP layer\<close>

definition replyOf :: "reply \<times> world \<times> event list \<Rightarrow> reply" where
  "replyOf r = fst r"

definition storeOf :: "reply \<times> world \<times> event list \<Rightarrow> world" where
  "storeOf r = fst (snd r)"

definition eventsOf :: "reply \<times> world \<times> event list \<Rightarrow> event list" where
  "eventsOf r = snd (snd r)"

text \<open>The replies of the handlers that the spec's error taxonomy names.\<close>

definition OTPExpiredError :: reply where
  "OTPExpiredError = respond 400 ''OTP has expired. Please request a new one.''"

definition OTPAttemptsExceededError :: reply where
  "OTPAttemptsExceededError =
     respond 400 ''Maximum OTP attempts exceeded. Please request a new OTP.''"

definition OTPMismatchError :: "int \<Rightarrow> reply" where
  "OTPMismatchError n = (respond 400 ''Invalid OTP'')\<lparr>attemptsRemaining := Some n\<rparr>"

definition RateLimitError :: "int \<Rightarrow> reply" where
  "RateLimitError secs = rateLimitReply secs"

definition DeliveryFailureError :: reply where
  "DeliveryFailureError =
     respond 500 ''Failed to send OTP. Please check the phone number and SMS configuration.''"

section \<open>A concrete scenario\<close>

text \<open>
  A provider that accepts every request and one that cannot be reached; an engineer
  \<open>eng1\<close> with an appointment \<open>a1\<close> and a worker visit \<open>v1\<close> for the client
  \<open>c1\<close>. The clock reads 1000000 ms; the OTP of \<open>a1\<close> was sent 10 seconds
  earlier, the OTP of \<open>v1\<close> 900 seconds earlier.
\<close>

definition okResponse :: responseData where
  "okResponse = \<lparr>r_type = ''success'', r_request_id = Some ''req-1'',
                  r_message_id = None, r_message = None\<rparr>"

definition env_ok :: env where
  "env_ok =
     \<lparr>now = 1000000,
      randomDigit = (\<lambda>i. i + 1),
      httpPost = (\<lambda>req. Response okResponse),
      jwtVerify = (\<lambda>t.
         if t = ''tok-a1'' then
           Some \<lparr>t_phone = ''919876543210'', t_appointmentId = Some ''a1'',
                 t_visitId = None, t_purpose = ''appointment''\<rparr>
         else if t = ''tok-v1'' then
           Some \<lparr>t_phone = ''919876543210'', t_appointmentId = None,
                 t_visitId = Some ''v1'', t_purpose = ''worker_visit''\<rparr>
         else None),
      newId = ''v2'',
      parseDate = (\<lambda>s. if s = ''2025-11-20'' then Some 1763596800000
                       else if s = ''2025-12-01'' then Some 1764547200000 else None),
      formatDate = (\<lambda>d. if d = 1763596800000 then ''Nov 20, 2025'' else ''Dec 01, 2025''),
      templateId = None,
      otpTemplateId = Some ''otp-template'',
      envAdminPhone = Some ''9876500000'',
      otpLength = 6,
      expiryMinutes = 15,
      workerVisitExpiryHours = 24\<rparr>"

definition env_down :: env where
  "env_down = env_ok\<lparr>httpPost := (\<lambda>req. HttpError None ''timeout'')\<rparr>"

definition appt0 :: appointment where
  "appt0 =
     \<lparr>engineerId = ''eng1'', engineerName = ''Asha'', clientPrimaryContact = ''98765 43210'',
      otpMobileNumber = None, status = SCHEDULED, otp = None, otpExpiresAt = None,
      otpSentAt = None, otpAttempts = 0, verifiedAt = None, feedback = None\<rparr>"

definition appt_sent :: appointment where
  "appt_sent =
     appt0\<lparr>otp := Some ''123456'', otpExpiresAt := Some 1890000, otpSentAt := Some 990000,
           status := OTP_SENT\<rparr>"

definition visit0 :: workerVisit where
  "visit0 =
     \<lparr>v_engineerId = ''eng1'', v_clientId = ''c1'', v_engineerName = ''Asha'',
      v_clientName = ''Site A'', v_clientPrimaryContact = ''98765 43210'',
      v_visitDate = 1763596800000, v_siteAddress = None, v_otp = Some ''654321'',
      v_otpSentAt = Some 100000, v_otpExpiresAt = Some 86500000, v_status = PENDING,
      v_verifiedAt = None, v_workerCount = None, v_remarks = None\<rparr>"

definition world_with :: "appointment \<Rightarrow> workerVisit \<Rightarrow> world" where
  "world_with a v =
     \<lparr>appointments = [''a1'' \<mapsto> a],
      workerVisits = [''v1'' \<mapsto> v],
      clients = [''c1'' \<mapsto> \<lparr>c_name = ''Site A'', c_primaryContact = ''98765 43210'',
                                c_isActive = True\<rparr>],
      users = [''eng1'' \<mapsto> \<lparr>u_name = ''Asha'', u_role = ENGINEER, u_isActive = True\<rparr>],
      smsLogs = [],
      adminPhoneSetting = None\<rparr>"

section \<open>Properties of the phone normalizer\<close>

lemma stripNonDigits_digits: "list_all isDigit (stripNonDigits phone)"
  by (simp add: stripNonDigits_def list_all_iff)

lemma stripNonDigits_nonempty: "stripNonDigits phone \<noteq> [] \<Longrightarrow> phone \<noteq> []"
  by (auto simp: stripNonDigits_def)

text \<open>
  Claim C7, as the spec states it, fails: a 10-digit input whose first two digits are
  \<open>91\<close> enters the "already starts with country code" branch and is rejected there,
  because it has fewer than 12 digits.
\<close>

theorem C7_ten_digits_starting_91_rejected:
  "length (stripNonDigits ''9123456789'') = 10 \<and> normalizePhoneNumber ''9123456789'' = None"
  by (simp add: normalizePhoneNumber_def stripNonDigits_def isDigit_def startsWith_def)

text \<open>
  Claim C7, amended: for every input that has exactly 10 digits after stripping the
  non-digit characters, and whose stripped digits do not begin with \<open>91\<close>,
  \<open>normalizePhoneNumber\<close> does not fail; it returns the prefix \<open>91\<close> followed by the
  ten digits, a string of exactly 12 digits.
\<close>

theorem C7_normalize_ten_digits:
  assumes "length (stripNonDigits phone) = 10"
    and "\<not> startsWith (stripNonDigits phone) ''91''"
  shows "normalizePhoneNumber phone = Some (''91'' @ stripNonDigits phone)
       \<and> length (''91'' @ stripNonDigits phone) = 12
       \<and> list_all isDigit (''91'' @ stripNonDigits phone)"
proof -
  from assms(1) have ne: "stripNonDigits phone \<noteq> []" by auto
  then have "phone \<noteq> []" by (rule stripNonDigits_nonempty)
  with ne assms have "normalizePhoneNumber phone = Some (''91'' @ stripNonDigits phone)"
    by (simp add: normalizePhoneNumber_def Let_def)
  moreover have "list_all isDigit (''91'' @ stripNonDigits phone)"
    using stripNonDigits_digits [of phone] by (simp add: isDigit_def)
  ultimately show ?thesis using assms(1) by simp
qed

theorem C7_normalize_ten_digits_witness:
  "length (stripNonDigits ''+81 (548) 312-33'') = 10
   \<and> \<not> startsWith (stripNonDigits ''+81 (548) 312-33'') ''91''
   \<and> normalizePhoneNumber ''+81 (548) 312-33'' = Some ''918154831233''"
proof -
  have d: "stripNonDigits ''+81 (548) 312-33'' = ''8154831233''"
    by (simp add: stripNonDigits_def isDigit_def)
  have h1: "length (stripNonDigits ''+81 (548) 312-33'') = 10" by (simp add: d)
  have h2: "\<not> startsWith (stripNonDigits ''+81 (548) 312-33'') ''91''"
    by (simp add: d startsWith_def)
  from C7_normalize_ten_digits [OF h1 h2] h1 h2 show ?thesis by (simp add: d)
qed

section \<open>The cooldown arithmetic\<close>

lemma remainingSeconds_ceiling:
  "remainingSeconds d = \<lceil>real_of_int (cooldownPeriod - d) / 1000\<rceil>"
proof -
  have "\<lceil>real_of_int (cooldownPeriod - d) / real_of_int 1000\<rceil> = - (- (cooldownPeriod - d) div 1000)"
    by (rule ceiling_divide_eq_div)
  then show ?thesis by (simp add: remainingSeconds_def)
qed

lemma remainingSeconds_bounds:
  assumes "0 \<le> d" and "d < cooldownPeriod"
  shows "0 < remainingSeconds d \<and> remainingSeconds d \<le> 60"
proof -
  let ?k = "- (cooldownPeriod - d)"
  have neg: "?k < 0" using assms(2) by simp
  have low: "- 60000 \<le> ?k" using assms(1) by (simp add: cooldownPeriod_def)
  have "?k div 1000 < 0" using neg by (simp add: div_neg_pos_less0)
  moreover have "(- 60000) div 1000 \<le> ?k div 1000" using low by (rule zdiv_mono1) simp
  moreover have "(- 60000::int) div 1000 = - 60" by simp
  ultimately show ?thesis by (simp add: remainingSeconds_def)
qed

lemma remainingSeconds_positive:
  assumes "d < cooldownPeriod"
  shows "0 < remainingSeconds d"
proof -
  have "- (cooldownPeriod - d) < 0" using assms by simp
  then have "(- (cooldownPeriod - d)) div 1000 < 0" by (simp add: div_neg_pos_less0)
  then show ?thesis by (simp add: remainingSeconds_def)
qed

lemma remainingSeconds_at_most_60:
  assumes "0 \<le> d"
  shows "remainingSeconds d \<le> 60"
proof -
  have "- 60000 \<le> - (cooldownPeriod - d)" using assms by (simp add: cooldownPeriod_def)
  then have "(- 60000) div 1000 \<le> (- (cooldownPeriod - d)) div 1000" by (rule zdiv_mono1) simp
  moreover have "(- 60000::int) div 1000 = - 60" by simp
  ultimately show ?thesis by (simp add: remainingSeconds_def)
qed

section \<open>Inline verification, case by case\<close>

text \<open>
  The four outcomes of \<open>verifyOTP\<close> for an owned appointment with a sent OTP and a
  non-empty submitted code, in the order the source tests them.
\<close>

lemma verifyOTP_expired:
  assumes "appointments w ident = Some a" "engineerId a = userId"
    "otp a = Some stored" "stored \<noteq> []" "otpExpiresAt a = Some t" "c \<noteq> []"
    "isOTPExpired e t"
  shows "verifyOTP e ident (Some c) userId w = (OTPExpiredError, w, [])"
  using assms by (simp add: verifyOTP_def OTPExpiredError_def)

lemma verifyOTP_exceeded:
  assumes "appointments w ident = Some a" "engineerId a = userId"
    "otp a = Some stored" "stored \<noteq> []" "otpExpiresAt a = Some t" "c \<noteq> []"
    "\<not> isOTPExpired e t" "3 \<le> otpAttempts a"
  shows "verifyOTP e ident (Some c) userId w = (OTPAttemptsExceededError, w, [])"
  using assms by (simp add: verifyOTP_def OTPAttemptsExceededError_def)

lemma verifyOTP_mismatch:
  assumes "appointments w ident = Some a" "engineerId a = userId"
    "otp a = Some stored" "stored \<noteq> []" "otpExpiresAt a = Some t" "c \<noteq> []"
    "\<not> isOTPExpired e t" "otpAttempts a < 3" "c \<noteq> stored" "c \<noteq> testOTP"
  shows "verifyOTP e ident (Some c) userId w =
           (OTPMismatchError (2 - otpAttempts a),
            w\<lparr>appointments := (appointments w)(ident \<mapsto> a\<lparr>otpAttempts := otpAttempts a + 1\<rparr>)\<rparr>, [])"
  using assms by (auto simp add: verifyOTP_def OTPMismatchError_def)

lemma verifyOTP_accept:
  assumes "appointments w ident = Some a" "engineerId a = userId"
    "otp a = Some stored" "stored \<noteq> []" "otpExpiresAt a = Some t" "c \<noteq> []"
    "\<not> isOTPExpired e t" "otpAttempts a < 3" "c = stored \<or> c = testOTP"
  shows "verifyOTP e ident (Some c) userId w =
           (respond 200 ''OTP verified successfully'',
            w\<lparr>appointments := (appointments w)(ident \<mapsto>
               a\<lparr>status := VERIFIED, verifiedAt := Some (now e), otpAttempts := otpAttempts a + 1\<rparr>)\<rparr>, [])"
  using assms by (auto simp add: verifyOTP_def)

section \<open>Facts about the scenario\<close>

lemma scenario_appointment:
  "appointments (world_with a v) ''a1'' = Some a"
  by (simp add: world_with_def)

lemma appt_sent_fields:
  "engineerId appt_sent = ''eng1''" "otp appt_sent = Some ''123456''"
  "otpExpiresAt appt_sent = Some 1890000" "otpSentAt appt_sent = Some 990000"
  "otpAttempts appt_sent = 0" "status appt_sent = OTP_SENT"
  by (simp_all add: appt_sent_def appt0_def)

lemma env_ok_not_expired: "\<not> isOTPExpired env_ok 1890000"
  by (simp add: isOTPExpired_def env_ok_def)

lemma appt_sent_attempts_fields:
  "engineerId (appt_sent\<lparr>otpAttempts := n\<rparr>) = ''eng1''"
  "otp (appt_sent\<lparr>otpAttempts := n\<rparr>) = Some ''123456''"
  "otpExpiresAt (appt_sent\<lparr>otpAttempts := n\<rparr>) = Some 1890000"
  "otpAttempts (appt_sent\<lparr>otpAttempts := n\<rparr>) = n"
  by (simp_all add: appt_sent_def appt0_def)

lemma env_late_expired: "isOTPExpired (env_ok\<lparr>now := 2000000\<rparr>) 1890000"
  by (simp add: isOTPExpired_def)

lemma generateOTP_env_ok: "generateOTP env_ok = ''123456''"
  by (simp add: generateOTP_def env_ok_def upt_rec)

lemma generateOTP_env_down: "generateOTP env_down = ''123456''"
  by (simp add: generateOTP_def env_down_def env_ok_def upt_rec)

lemma normalize_scenario:
  "normalizePhoneNumber ''98765 43210'' = Some ''919876543210''"
  "normalizePhoneNumber ''919876543210'' = Some ''919876543210''"
  "normalizePhoneNumber ''9876500000'' = Some ''919876500000''"
  "normalizePhoneNumber ''919876500000'' = Some ''919876500000''"
  by (simp_all add: normalizePhoneNumber_def stripNonDigits_def isDigit_def startsWith_def)

lemma sendVisitOTP_env_ok:
  "fst (sendVisitOTP env_ok ''98765 43210'' ''123456'' ''Asha'')"
  by (simp add: sendVisitOTP_def sendOTPViaMSG91_def normalize_scenario env_ok_def
      okResponse_def Let_def)

lemma sendVisitOTP_env_down:
  "\<not> fst (sendVisitOTP env_down ''98765 43210'' ''123456'' ''Asha'')"
  by (simp add: sendVisitOTP_def sendOTPViaMSG91_def sendSMS_def normalize_scenario
      env_down_def env_ok_def Let_def)

lemma appt0_fields:
  "engineerId appt0 = ''eng1''" "status appt0 = SCHEDULED"
  "recipientPhone appt0 = ''98765 43210''" "engineerName appt0 = ''Asha''"
  by (simp_all add: appt0_def recipientPhone_def)

lemma trim_scenario: "trim ''98765 43210'' \<noteq> []"
  by (simp add: trim_def isWhiteSpace_def)

section \<open>The attempt limit of inline verification\<close>

text \<open>
  Claim C2, as the spec states it, fails: with \<open>otpAttempts = 2\<close> the limit test
  \<open>otpAttempts >= 3\<close> does not fire, the submitted code is compared, and a wrong code
  is answered with the mismatch reply (attempts remaining 0), not with the
  attempts-exceeded reply.
\<close>

theorem C2_third_wrong_code_is_compared:
  "otpAttempts (appt_sent\<lparr>otpAttempts := 2\<rparr>) = 2
   \<and> replyOf (verifyOTP env_ok ''a1'' (Some ''999999'') ''eng1''
         (world_with (appt_sent\<lparr>otpAttempts := 2\<rparr>) visit0)) = OTPMismatchError 0
   \<and> replyOf (verifyOTP env_ok ''a1'' (Some ''999999'') ''eng1''
         (world_with (appt_sent\<lparr>otpAttempts := 2\<rparr>) visit0)) \<noteq> OTPAttemptsExceededError"
  by (simp add: verifyOTP_def world_with_def appt_sent_def appt0_def env_ok_def
      isOTPExpired_def testOTP_def replyOf_def OTPMismatchError_def
      OTPAttemptsExceededError_def respond_def)

text \<open>
  Claim C2, amended. For every verify call by the owning engineer with a non-empty
  submitted code on an appointment with a sent OTP, \<open>verifyOTP\<close> tests expiry first,
  then the attempt limit, then the code: an expired OTP is answered with the expiry
  error whatever the counter and the code; an unexpired OTP whose counter has reached 3
  is answered with the attempts-exceeded error whatever the code, and nothing is stored.
  With an unexpired OTP and \<open>otpAttempts = 2\<close>, a code that is neither the stored
  code nor the test code is compared and answered with the mismatch error (attempts
  remaining 0), and the counter becomes 3. Consequently, in a run of three consecutive
  such wrong-code calls starting from \<open>otpAttempts = 0\<close>, the OTP unexpired at each
  call, the three calls return the mismatch error with 2, 1 and 0 attempts remaining,
  and a fourth call with the stored code fails with the attempts-exceeded error and
  leaves the store (so the counter, at 3) as it was.
\<close>

theorem C2_attempt_limit:
  assumes found: "appointments w ident = Some a" and owner: "engineerId a = userId"
    and sent: "otp a = Some stored" "stored \<noteq> []" "otpExpiresAt a = Some t"
    and c: "c \<noteq> []"
  shows "(isOTPExpired e t \<longrightarrow> verifyOTP e ident (Some c) userId w = (OTPExpiredError, w, []))
       \<and> (\<not> isOTPExpired e t \<and> 3 \<le> otpAttempts a \<longrightarrow>
            verifyOTP e ident (Some c) userId w = (OTPAttemptsExceededError, w, []))
       \<and> (\<not> isOTPExpired e t \<and> otpAttempts a = 2 \<and> c \<noteq> stored \<and> c \<noteq> testOTP \<longrightarrow>
            verifyOTP e ident (Some c) userId w =
              (OTPMismatchError 0,
               w\<lparr>appointments := (appointments w)(ident \<mapsto> a\<lparr>otpAttempts := 3\<rparr>)\<rparr>, []))
       \<and> (otpAttempts a = 0
            \<and> c1 \<noteq> [] \<and> c1 \<noteq> stored \<and> c1 \<noteq> testOTP
            \<and> c2 \<noteq> [] \<and> c2 \<noteq> stored \<and> c2 \<noteq> testOTP
            \<and> c3 \<noteq> [] \<and> c3 \<noteq> stored \<and> c3 \<noteq> testOTP
            \<and> \<not> isOTPExpired e1 t \<and> \<not> isOTPExpired e2 t \<and> \<not> isOTPExpired e3 t
            \<and> \<not> isOTPExpired e4 t \<longrightarrow>
            (let r1 = verifyOTP e1 ident (Some c1) userId w;
                 r2 = verifyOTP e2 ident (Some c2) userId (storeOf r1);
                 r3 = verifyOTP e3 ident (Some c3) userId (storeOf r2);
                 r4 = verifyOTP e4 ident (Some stored) userId (storeOf r3)
             in replyOf r1 = OTPMismatchError 2 \<and> replyOf r2 = OTPMismatchError 1
                \<and> replyOf r3 = OTPMismatchError 0
                \<and> storeOf r3 = w\<lparr>appointments := (appointments w)(ident \<mapsto> a\<lparr>otpAttempts := 3\<rparr>)\<rparr>
                \<and> replyOf r4 = OTPAttemptsExceededError \<and> storeOf r4 = storeOf r3))"
proof (intro conjI impI)
  assume "isOTPExpired e t"
  with found owner sent c show "verifyOTP e ident (Some c) userId w = (OTPExpiredError, w, [])"
    by (simp add: verifyOTP_expired)
next
  assume "\<not> isOTPExpired e t \<and> 3 \<le> otpAttempts a"
  with found owner sent c
  show "verifyOTP e ident (Some c) userId w = (OTPAttemptsExceededError, w, [])"
    by (simp add: verifyOTP_exceeded)
next
  assume h: "\<not> isOTPExpired e t \<and> otpAttempts a = 2 \<and> c \<noteq> stored \<and> c \<noteq> testOTP"
  then have fresh: "\<not> isOTPExpired e t" and two: "otpAttempts a = 2"
    and wrong: "c \<noteq> stored" "c \<noteq> testOTP"
    by simp_all
  from two have "otpAttempts a < 3" by simp
  from verifyOTP_mismatch [OF found owner sent c fresh this wrong] two
  show "verifyOTP e ident (Some c) userId w =
          (OTPMismatchError 0,
           w\<lparr>appointments := (appointments w)(ident \<mapsto> a\<lparr>otpAttempts := 3\<rparr>)\<rparr>, [])"
    by simp
next
  assume h: "otpAttempts a = 0
            \<and> c1 \<noteq> [] \<and> c1 \<noteq> stored \<and> c1 \<noteq> testOTP
            \<and> c2 \<noteq> [] \<and> c2 \<noteq> stored \<and> c2 \<noteq> testOTP
            \<and> c3 \<noteq> [] \<and> c3 \<noteq> stored \<and> c3 \<noteq> testOTP
            \<and> \<not> isOTPExpired e1 t \<and> \<not> isOTPExpired e2 t \<and> \<not> isOTPExpired e3 t
            \<and> \<not> isOTPExpired e4 t"
  then have zero: "otpAttempts a = 0"
    and wrong: "c1 \<noteq> []" "c1 \<noteq> stored" "c1 \<noteq> testOTP"
               "c2 \<noteq> []" "c2 \<noteq> stored" "c2 \<noteq> testOTP"
               "c3 \<noteq> []" "c3 \<noteq> stored" "c3 \<noteq> testOTP"
    and fresh: "\<not> isOTPExpired e1 t" "\<not> isOTPExpired e2 t" "\<not> isOTPExpired e3 t"
               "\<not> isOTPExpired e4 t"
    by simp_all
  define a1 where "a1 = a\<lparr>otpAttempts := 1\<rparr>"
  define a2 where "a2 = a\<lparr>otpAttempts := 2\<rparr>"
  define a3 where "a3 = a\<lparr>otpAttempts := 3\<rparr>"
  define w1 where "w1 = w\<lparr>appointments := (appointments w)(ident \<mapsto> a1)\<rparr>"
  define w2 where "w2 = w\<lparr>appointments := (appointments w)(ident \<mapsto> a2)\<rparr>"
  define w3 where "w3 = w\<lparr>appointments := (appointments w)(ident \<mapsto> a3)\<rparr>"
  have f1: "appointments w1 ident = Some a1" and f2: "appointments w2 ident = Some a2"
    and f3: "appointments w3 ident = Some a3"
    by (simp_all add: w1_def w2_def w3_def)
  have o1: "engineerId a1 = userId" and o2: "engineerId a2 = userId"
    and o3: "engineerId a3 = userId"
    using owner by (simp_all add: a1_def a2_def a3_def)
  have s1: "otp a1 = Some stored" "otpExpiresAt a1 = Some t"
    and s2: "otp a2 = Some stored" "otpExpiresAt a2 = Some t"
    and s3: "otp a3 = Some stored" "otpExpiresAt a3 = Some t"
    using sent by (simp_all add: a1_def a2_def a3_def)
  have n0: "otpAttempts a < 3" using zero by simp
  have n1: "otpAttempts a1 < 3" and n2: "otpAttempts a2 < 3" and n3: "3 \<le> otpAttempts a3"
    by (simp_all add: a1_def a2_def a3_def)
  have r1: "verifyOTP e1 ident (Some c1) userId w = (OTPMismatchError 2, w1, [])"
    using verifyOTP_mismatch [OF found owner sent wrong(1) fresh(1) n0 wrong(2,3)] zero
    by (simp add: w1_def a1_def)
  have r2: "verifyOTP e2 ident (Some c2) userId w1 = (OTPMismatchError 1, w2, [])"
    using verifyOTP_mismatch [OF f1 o1 s1(1) sent(2) s1(2) wrong(4) fresh(2) n1 wrong(5,6)]
    by (simp add: w1_def w2_def a1_def a2_def)
  have r3: "verifyOTP e3 ident (Some c3) userId w2 = (OTPMismatchError 0, w3, [])"
    using verifyOTP_mismatch [OF f2 o2 s2(1) sent(2) s2(2) wrong(7) fresh(3) n2 wrong(8,9)]
    by (simp add: w2_def w3_def a2_def a3_def)
  have r4: "verifyOTP e4 ident (Some stored) userId w3 = (OTPAttemptsExceededError, w3, [])"
    using verifyOTP_exceeded [OF f3 o3 s3(1) sent(2) s3(2) sent(2) fresh(4) n3] .
  show "let r1 = verifyOTP e1 ident (Some c1) userId w;
            r2 = verifyOTP e2 ident (Some c2) userId (storeOf r1);
            r3 = verifyOTP e3 ident (Some c3) userId (storeOf r2);
            r4 = verifyOTP e4 ident (Some stored) userId (storeOf r3)
        in replyOf r1 = OTPMismatchError 2 \<and> replyOf r2 = OTPMismatchError 1
           \<and> replyOf r3 = OTPMismatchError 0
           \<and> storeOf r3 = w\<lparr>appointments := (appointments w)(ident \<mapsto> a\<lparr>otpAttempts := 3\<rparr>)\<rparr>
           \<and> replyOf r4 = OTPAttemptsExceededError \<and> storeOf r4 = storeOf r3"
    by (simp add: Let_def r1 r2 r3 r4 storeOf_def replyOf_def) (simp add: w3_def a3_def)
qed

theorem C2_attempt_limit_witness:
  "appointments (world_with appt_sent visit0) ''a1'' = Some appt_sent
   \<and> otpAttempts appt_sent = 0
   \<and> \<not> isOTPExpired env_ok 1890000
   \<and> isOTPExpired (env_ok\<lparr>now := 2000000\<rparr>) 1890000
   \<and> verifyOTP (env_ok\<lparr>now := 2000000\<rparr>) ''a1'' (Some ''123456'') ''eng1''
         (world_with appt_sent visit0) = (OTPExpiredError, world_with appt_sent visit0, [])
   \<and> verifyOTP env_ok ''a1'' (Some ''123456'') ''eng1''
         (world_with (appt_sent\<lparr>otpAttempts := 3\<rparr>) visit0)
       = (OTPAttemptsExceededError, world_with (appt_sent\<lparr>otpAttempts := 3\<rparr>) visit0, [])
   \<and> replyOf (verifyOTP env_ok ''a1'' (Some ''111111'') ''eng1''
         (world_with (appt_sent\<lparr>otpAttempts := 2\<rparr>) visit0)) = OTPMismatchError 0
   \<and> (let r1 = verifyOTP env_ok ''a1'' (Some ''111111'') ''eng1'' (world_with appt_sent visit0);
           r2 = verifyOTP env_ok ''a1'' (Some ''222222'') ''eng1'' (storeOf r1);
           r3 = verifyOTP env_ok ''a1'' (Some ''333333'') ''eng1'' (storeOf r2);
           r4 = verifyOTP env_ok ''a1'' (Some ''123456'') ''eng1'' (storeOf r3)
       in replyOf r1 = OTPMismatchError 2 \<and> replyOf r2 = OTPMismatchError 1
          \<and> replyOf r3 = OTPMismatchError 0
          \<and> storeOf r3 = (world_with appt_sent visit0)\<lparr>appointments :=
               (appointments (world_with appt_sent visit0))(''a1'' \<mapsto>
                  appt_sent\<lparr>otpAttempts := 3\<rparr>)\<rparr>
          \<and> replyOf r4 = OTPAttemptsExceededError \<and> storeOf r4 = storeOf r3)"
proof -
  have ne: "''123456'' \<noteq> []" "''111111'' \<noteq> []" by simp_all
  have run_pre: "otpAttempts appt_sent = 0
      \<and> ''111111'' \<noteq> [] \<and> ''111111'' \<noteq> ''123456'' \<and> ''111111'' \<noteq> testOTP
      \<and> ''222222'' \<noteq> [] \<and> ''222222'' \<noteq> ''123456'' \<and> ''222222'' \<noteq> testOTP
      \<and> ''333333'' \<noteq> [] \<and> ''333333'' \<noteq> ''123456'' \<and> ''333333'' \<noteq> testOTP
      \<and> \<not> isOTPExpired env_ok 1890000 \<and> \<not> isOTPExpired env_ok 1890000
      \<and> \<not> isOTPExpired env_ok 1890000 \<and> \<not> isOTPExpired env_ok 1890000"
    by (simp add: testOTP_def appt_sent_fields env_ok_not_expired)
  have two_pre: "\<not> isOTPExpired env_ok 1890000
      \<and> otpAttempts (appt_sent\<lparr>otpAttempts := 2\<rparr>) = 2
      \<and> ''111111'' \<noteq> ''123456'' \<and> ''111111'' \<noteq> testOTP"
    by (simp add: testOTP_def appt_sent_attempts_fields env_ok_not_expired)
  have three: "3 \<le> otpAttempts (appt_sent\<lparr>otpAttempts := 3\<rparr>)"
    by (simp add: appt_sent_attempts_fields)
  note run = C2_attempt_limit [where e = "env_ok\<lparr>now := 2000000\<rparr>"
      and ?c1.0 = "''111111''" and ?c2.0 = "''222222''" and ?c3.0 = "''333333''"
      and ?e1.0 = env_ok and ?e2.0 = env_ok and ?e3.0 = env_ok and ?e4.0 = env_ok,
      OF scenario_appointment [of appt_sent visit0] appt_sent_fields(1,2) ne(1)
      appt_sent_fields(3) ne(1)]
  note at3 = C2_attempt_limit [where e = env_ok,
      OF scenario_appointment [of "appt_sent\<lparr>otpAttempts := 3\<rparr>" visit0]
      appt_sent_attempts_fields(1,2) ne(1) appt_sent_attempts_fields(3) ne(1)]
  note at2 = C2_attempt_limit [where e = env_ok,
      OF scenario_appointment [of "appt_sent\<lparr>otpAttempts := 2\<rparr>" visit0]
      appt_sent_attempts_fields(1,2) ne(1) appt_sent_attempts_fields(3) ne(2)]
  note x1 = run [THEN conjunct1, THEN mp, OF env_late_expired]
  note x2 = at3 [THEN conjunct2, THEN conjunct1, THEN mp, OF conjI [OF env_ok_not_expired three]]
  note x3 = at2 [THEN conjunct2, THEN conjunct2, THEN conjunct1, THEN mp, OF two_pre]
  note x4 = run [THEN conjunct2, THEN conjunct2, THEN conjunct2, THEN mp, OF run_pre]
  have p2: "replyOf (verifyOTP env_ok ''a1'' (Some ''111111'') ''eng1''
         (world_with (appt_sent\<lparr>otpAttempts := 2\<rparr>) visit0)) = OTPMismatchError 0"
    using x3 by (simp add: replyOf_def)
  from scenario_appointment [of appt_sent visit0] appt_sent_fields(5) env_ok_not_expired
    env_late_expired x1 x2 p2 x4
  show ?thesis by (intro conjI)
qed

section \<open>The outcomes of inline verification\<close>

text \<open>
  Claim C4, as the spec states it, fails on a mismatch with the fixed test code: the
  stored code is \<open>123456\<close>, the submitted code \<open>000000\<close> differs from it, and the
  call verifies the appointment instead of answering with the mismatch error.
\<close>

theorem C4_test_code_verifies_on_mismatch:
  "otp appt_sent = Some ''123456'' \<and> ''000000'' \<noteq> ''123456''
   \<and> verifyOTP env_ok ''a1'' (Some ''000000'') ''eng1'' (world_with appt_sent visit0) =
       (respond 200 ''OTP verified successfully'',
        (world_with appt_sent visit0)\<lparr>appointments := [''a1'' \<mapsto>
           appt_sent\<lparr>status := VERIFIED, verifiedAt := Some 1000000, otpAttempts := 1\<rparr>]\<rparr>,
        [])"
  by (simp add: verifyOTP_def world_with_def appt_sent_def appt0_def env_ok_def
      isOTPExpired_def testOTP_def)

text \<open>
  Claim C4, amended. For every verify call on an owned appointment with a sent,
  unexpired OTP, \<open>otpAttempts < 3\<close> and a non-empty submitted code: when the submitted
  code is neither the stored code nor the fixed test code \<open>000000\<close>, the attempt counter
  is incremented by 1 and the error reply carries \<open>attemptsRemaining\<close> equal to 2 minus
  the pre-increment count; when the submitted code is the stored code or the test code,
  the status becomes \<open>VERIFIED\<close>, \<open>verifiedAt\<close> is set to the current time and the
  counter is still incremented by 1. Nothing else in the store changes and the provider
  is not called.
\<close>

theorem C4_verify_outcomes:
  assumes "appointments w ident = Some a" and "engineerId a = userId"
    and "otp a = Some stored" and "stored \<noteq> []" and "otpExpiresAt a = Some t"
    and "\<not> isOTPExpired e t" and "otpAttempts a < 3" and "c \<noteq> []"
  shows "verifyOTP e ident (Some c) userId w =
           (if c = stored \<or> c = testOTP then
              (respond 200 ''OTP verified successfully'',
               w\<lparr>appointments := (appointments w)(ident \<mapsto>
                  a\<lparr>status := VERIFIED, verifiedAt := Some (now e),
                    otpAttempts := otpAttempts a + 1\<rparr>)\<rparr>, [])
            else
              (OTPMismatchError (2 - otpAttempts a),
               w\<lparr>appointments := (appointments w)(ident \<mapsto>
                  a\<lparr>otpAttempts := otpAttempts a + 1\<rparr>)\<rparr>, []))"
proof (cases "c = stored \<or> c = testOTP")
  case True
  with verifyOTP_accept [OF assms(1-5) assms(8) assms(6) assms(7)] show ?thesis by simp
next
  case False
  then have "c \<noteq> stored" "c \<noteq> testOTP" by simp_all
  with verifyOTP_mismatch [OF assms(1-5) assms(8) assms(6) assms(7)] False show ?thesis by simp
qed

theorem C4_verify_outcomes_witness:
  "appointments (world_with appt_sent visit0) ''a1'' = Some appt_sent
   \<and> engineerId appt_sent = ''eng1'' \<and> otp appt_sent = Some ''123456''
   \<and> otpExpiresAt appt_sent = Some 1890000 \<and> \<not> isOTPExpired env_ok 1890000
   \<and> otpAttempts appt_sent < 3
   \<and> replyOf (verifyOTP env_ok ''a1'' (Some ''111111'') ''eng1'' (world_with appt_sent visit0))
       = OTPMismatchError 2
   \<and> map_option otpAttempts
        (appointments (storeOf (verifyOTP env_ok ''a1'' (Some ''111111'') ''eng1''
           (world_with appt_sent visit0))) ''a1'') = Some 1
   \<and> map_option status
        (appointments (storeOf (verifyOTP env_ok ''a1'' (Some ''123456'') ''eng1''
           (world_with appt_sent visit0))) ''a1'') = Some VERIFIED"
proof -
  have h7: "otpAttempts appt_sent < 3" by (simp add: appt_sent_fields)
  have ne: "''123456'' \<noteq> []" "''111111'' \<noteq> []" by simp_all
  note th = C4_verify_outcomes [OF scenario_appointment appt_sent_fields(1) appt_sent_fields(2)
      ne(1) appt_sent_fields(3) env_ok_not_expired h7]
  from th [of "''111111''" visit0] th [of "''123456''" visit0] show ?thesis
    by (simp add: scenario_appointment appt_sent_fields env_ok_not_expired replyOf_def
        storeOf_def testOTP_def)
qed

section \<open>Sending an appointment OTP\<close>

text \<open>
  Claim C5. For every \<open>sendOTP\<close> call that passes the ownership, status and phone
  checks: if the gateway delivery (\<open>sendVisitOTP\<close>) fails, the appointments table is
  unchanged (so \<open>otp\<close>, \<open>otpExpiresAt\<close>, \<open>otpSentAt\<close>, \<open>otpAttempts\<close> and \<open>status\<close>
  are) and the reply is the delivery-failure error; if it succeeds, the reply is the
  success reply and the row is the old row with the new code, expiry and send time, the
  attempt counter 0 and the status \<open>OTP_SENT\<close>.
\<close>

theorem C5_send_persists_only_on_delivery:
  assumes "appointments w ident = Some a" and "engineerId a = userId"
    and "status a \<noteq> COMPLETED" and "trim (recipientPhone a) \<noteq> []"
  shows "if fst (sendVisitOTP e (recipientPhone a) (generateOTP e) (engineerName a)) then
           replyOf (sendOTP e ident userId w) = respond 200 ''OTP sent successfully''
           \<and> appointments (storeOf (sendOTP e ident userId w)) =
               (appointments w)(ident \<mapsto>
                  a\<lparr>otp := Some (generateOTP e), otpExpiresAt := Some (getOTPExpiry e),
                    otpSentAt := Some (now e), otpAttempts := 0, status := OTP_SENT\<rparr>)
         else
           replyOf (sendOTP e ident userId w) = DeliveryFailureError
           \<and> appointments (storeOf (sendOTP e ident userId w)) = appointments w"
proof (cases "sendVisitOTP e (recipientPhone a) (generateOTP e) (engineerName a)")
  case (fields otpSent logs evs)
  with assms show ?thesis
    by (simp add: sendOTP_def Let_def replyOf_def storeOf_def addLogs_def DeliveryFailureError_def)
qed

theorem C5_send_persists_only_on_delivery_witness:
  "appointments (world_with appt0 visit0) ''a1'' = Some appt0
   \<and> engineerId appt0 = ''eng1'' \<and> status appt0 \<noteq> COMPLETED
   \<and> trim (recipientPhone appt0) \<noteq> []
   \<and> fst (sendVisitOTP env_ok (recipientPhone appt0) (generateOTP env_ok) (engineerName appt0))
   \<and> appointments (storeOf (sendOTP env_ok ''a1'' ''eng1'' (world_with appt0 visit0))) ''a1'' =
       Some (appt0\<lparr>otp := Some ''123456'', otpExpiresAt := Some 1900000,
               otpSentAt := Some 1000000, otpAttempts := 0, status := OTP_SENT\<rparr>)
   \<and> \<not> fst (sendVisitOTP env_down (recipientPhone appt0) (generateOTP env_down)
              (engineerName appt0))
   \<and> replyOf (sendOTP env_down ''a1'' ''eng1'' (world_with appt0 visit0)) = DeliveryFailureError
   \<and> appointments (storeOf (sendOTP env_down ''a1'' ''eng1'' (world_with appt0 visit0))) ''a1''
       = Some appt0"
proof -
  have h3: "status appt0 \<noteq> COMPLETED" by (simp add: appt0_fields)
  have h4: "trim (recipientPhone appt0) \<noteq> []" by (simp add: appt0_fields trim_scenario)
  note th = C5_send_persists_only_on_delivery
      [OF scenario_appointment [of appt0 visit0] appt0_fields(1) h3 h4]
  have exp: "getOTPExpiry env_ok = 1900000" "now env_ok = 1000000"
    by (simp_all add: getOTPExpiry_def env_ok_def)
  from th [of env_ok] th [of env_down] show ?thesis
    by (simp add: scenario_appointment appt0_fields trim_scenario generateOTP_env_ok
        generateOTP_env_down sendVisitOTP_env_ok sendVisitOTP_env_down exp)
qed

section \<open>The resend cooldown\<close>

lemma rateLimited_within:
  assumes "now e - t < 60 * 1000"
  shows "rateLimited e (Some t) = Some (remainingSeconds (now e - t))"
  using assms by (simp add: rateLimited_def cooldownPeriod_def)

lemma rateLimited_elapsed:
  assumes "60 * 1000 \<le> now e - t"
  shows "rateLimited e (Some t) = None"
  using assms by (simp add: rateLimited_def cooldownPeriod_def)

lemma resendOTP_within_cooldown:
  assumes "appointments w ident = Some a" and "otpSentAt a = Some t"
    and "now e - t < 60 * 1000"
  shows "resendOTP e ident userId w =
           (if engineerId a \<noteq> userId then respond 403 ''Access denied''
            else if status a = COMPLETED then respond 400 ''Appointment already completed''
            else RateLimitError (remainingSeconds (now e - t)), w, [])"
  using assms(1,2) rateLimited_within [OF assms(3)]
  by (simp add: resendOTP_def RateLimitError_def)

lemma resendOTP_visit_within_cooldown:
  assumes "workerVisits w ident = Some v" and "v_otpSentAt v = Some t"
    and "now e - t < 60 * 1000"
  shows "resendOTP_visit e ident userId w =
           (if v_engineerId v \<noteq> userId then respond 403 ''Access denied''
            else if v_status v = VISIT_COMPLETED then
              respond 400 ''Worker count already submitted for this visit''
            else RateLimitError (remainingSeconds (now e - t)), w, [])"
  using assms(1,2) rateLimited_within [OF assms(3)]
  by (simp add: resendOTP_visit_def RateLimitError_def)

lemma scenario_visit: "workerVisits (world_with a v) ''v1'' = Some v"
  by (simp add: world_with_def)

lemma visit0_fields:
  "v_engineerId visit0 = ''eng1''" "v_status visit0 = PENDING"
  "v_otpSentAt visit0 = Some 100000" "v_otp visit0 = Some ''654321''"
  "v_otpExpiresAt visit0 = Some 86500000"
  by (simp_all add: visit0_def)

lemma rateLimitReply_50:
  "rateLimitReply 50 =
     (respond 429 ''Please wait 50 seconds before requesting a new OTP'')\<lparr>retryAfter := Some 50\<rparr>"
  by (simp add: rateLimitReply_def showInt_def showNat.simps)

text \<open>
  Claim C6, as the spec states it, fails. The appointment \<open>a1\<close>, whose OTP was sent 10
  seconds ago, is \<open>COMPLETED\<close>: its owner's resend is answered with status 400 by the
  status guard, which comes before the cooldown guard, not with the rate-limit error.
  And for an appointment whose recorded send time is half a second later than the
  clock's reading, the rate-limit error carries the retry-after value 61.
\<close>

theorem C6_completed_resend_is_not_rate_limited:
  "otpSentAt (appt_sent\<lparr>status := COMPLETED\<rparr>) = Some 990000
   \<and> now env_ok - 990000 < 60 * 1000
   \<and> resendOTP env_ok ''a1'' ''eng1'' (world_with (appt_sent\<lparr>status := COMPLETED\<rparr>) visit0) =
       (respond 400 ''Appointment already completed'',
        world_with (appt_sent\<lparr>status := COMPLETED\<rparr>) visit0, [])
   \<and> httpStatus (respond 400 ''Appointment already completed'') \<noteq> 429
   \<and> now env_ok - 1000500 < 60 * 1000
   \<and> retryAfter (replyOf (resendOTP env_ok ''a1'' ''eng1''
         (world_with (appt_sent\<lparr>otpSentAt := Some 1000500\<rparr>) visit0))) = Some 61"
  by (simp add: resendOTP_def world_with_def appt_sent_def appt0_def env_ok_def respond_def
      rateLimited_def rateLimitReply_def remainingSeconds_def cooldownPeriod_def replyOf_def)

text \<open>
  Claim C6, amended. For every appointment and every worker visit with a recorded last
  OTP-send time, a resend issued while fewer than 60 seconds have elapsed since that time
  generates and delivers no OTP and leaves the store as it was. It is answered with
  status 403 to a caller who is not the owning engineer, with status 400 when the entity
  is \<open>COMPLETED\<close>, and otherwise with the rate-limit error (HTTP 429), whose
  \<open>retryAfter\<close> value is positive and, when the recorded send time is not later than
  the current time, at most 60.
\<close>

theorem C6_resend_within_cooldown:
  assumes "now e - t < 60 * 1000"
  shows "(appointments w ident = Some a \<and> otpSentAt a = Some t \<longrightarrow>
            resendOTP e ident userId w =
              (if engineerId a \<noteq> userId then respond 403 ''Access denied''
               else if status a = COMPLETED then respond 400 ''Appointment already completed''
               else RateLimitError (remainingSeconds (now e - t)), w, []))
       \<and> (workerVisits w vid = Some v \<and> v_otpSentAt v = Some t \<longrightarrow>
            resendOTP_visit e vid userId w =
              (if v_engineerId v \<noteq> userId then respond 403 ''Access denied''
               else if v_status v = VISIT_COMPLETED then
                 respond 400 ''Worker count already submitted for this visit''
               else RateLimitError (remainingSeconds (now e - t)), w, []))
       \<and> httpStatus (RateLimitError (remainingSeconds (now e - t))) = 429
       \<and> retryAfter (RateLimitError (remainingSeconds (now e - t)))
           = Some (remainingSeconds (now e - t))
       \<and> 0 < remainingSeconds (now e - t)
       \<and> (0 \<le> now e - t \<longrightarrow> remainingSeconds (now e - t) \<le> 60)"
proof (intro conjI impI)
  assume "appointments w ident = Some a \<and> otpSentAt a = Some t"
  then have "appointments w ident = Some a" "otpSentAt a = Some t" by simp_all
  then show "resendOTP e ident userId w =
              (if engineerId a \<noteq> userId then respond 403 ''Access denied''
               else if status a = COMPLETED then respond 400 ''Appointment already completed''
               else RateLimitError (remainingSeconds (now e - t)), w, [])"
    using assms by (rule resendOTP_within_cooldown)
next
  assume "workerVisits w vid = Some v \<and> v_otpSentAt v = Some t"
  then have "workerVisits w vid = Some v" "v_otpSentAt v = Some t" by simp_all
  then show "resendOTP_visit e vid userId w =
              (if v_engineerId v \<noteq> userId then respond 403 ''Access denied''
               else if v_status v = VISIT_COMPLETED then
                 respond 400 ''Worker count already submitted for this visit''
               else RateLimitError (remainingSeconds (now e - t)), w, [])"
    using assms by (rule resendOTP_visit_within_cooldown)
next
  show "httpStatus (RateLimitError (remainingSeconds (now e - t))) = 429"
    by (simp add: RateLimitError_def rateLimitReply_def respond_def)
  show "retryAfter (RateLimitError (remainingSeconds (now e - t)))
           = Some (remainingSeconds (now e - t))"
    by (simp add: RateLimitError_def rateLimitReply_def)
  show "0 < remainingSeconds (now e - t)"
    using assms by (intro remainingSeconds_positive) (simp add: cooldownPeriod_def)
next
  assume "0 \<le> now e - t"
  then show "remainingSeconds (now e - t) \<le> 60" by (rule remainingSeconds_at_most_60)
qed

theorem C6_resend_within_cooldown_witness:
  "now env_ok - 990000 < 60 * 1000 \<and> now env_ok - 995000 < 60 * 1000
   \<and> appointments (world_with appt_sent (visit0\<lparr>v_otpSentAt := Some 995000\<rparr>)) ''a1''
       = Some appt_sent
   \<and> otpSentAt appt_sent = Some 990000
   \<and> v_otpSentAt (visit0\<lparr>v_otpSentAt := Some 995000\<rparr>) = Some 995000
   \<and> resendOTP env_ok ''a1'' ''eng1'' (world_with appt_sent (visit0\<lparr>v_otpSentAt := Some 995000\<rparr>))
       = (RateLimitError 50, world_with appt_sent (visit0\<lparr>v_otpSentAt := Some 995000\<rparr>), [])
   \<and> resendOTP env_ok ''a1'' ''eng2'' (world_with appt_sent (visit0\<lparr>v_otpSentAt := Some 995000\<rparr>))
       = (respond 403 ''Access denied'',
          world_with appt_sent (visit0\<lparr>v_otpSentAt := Some 995000\<rparr>), [])
   \<and> resendOTP_visit env_ok ''v1'' ''eng1''
         (world_with appt_sent (visit0\<lparr>v_otpSentAt := Some 995000\<rparr>))
       = (RateLimitError 55, world_with appt_sent (visit0\<lparr>v_otpSentAt := Some 995000\<rparr>), [])
   \<and> RateLimitError 50 =
       (respond 429 ''Please wait 50 seconds before requesting a new OTP'')
         \<lparr>retryAfter := Some 50\<rparr>"
proof -
  let ?v = "visit0\<lparr>v_otpSentAt := Some 995000\<rparr>"
  let ?w = "world_with appt_sent ?v"
  have n: "now env_ok = 1000000" by (simp add: env_ok_def)
  have ta: "now env_ok - 990000 < 60 * 1000" and tv: "now env_ok - 995000 < 60 * 1000"
    by (simp_all add: n)
  have vs: "v_otpSentAt ?v = Some 995000" by simp
  have own: "engineerId appt_sent = ''eng1''" "status appt_sent \<noteq> COMPLETED"
    "v_engineerId ?v = ''eng1''" "v_status ?v \<noteq> VISIT_COMPLETED"
    by (simp_all add: appt_sent_fields visit0_fields)
  have secs: "remainingSeconds (now env_ok - 990000) = 50"
    "remainingSeconds (now env_ok - 995000) = 55"
    by (simp_all add: n remainingSeconds_def cooldownPeriod_def)
  note tha = C6_resend_within_cooldown [OF ta, where w = ?w and ident = "''a1''"
      and a = appt_sent, THEN conjunct1, THEN mp,
      OF conjI [OF scenario_appointment appt_sent_fields(4)]]
  note thv = C6_resend_within_cooldown [OF tv, where w = ?w and vid = "''v1''"
      and v = ?v, THEN conjunct2, THEN conjunct1, THEN mp,
      OF conjI [OF scenario_visit vs]]
  have ra: "resendOTP env_ok ''a1'' ''eng1'' ?w = (RateLimitError 50, ?w, [])"
    using tha [of "''eng1''"] own secs by simp
  have rb: "resendOTP env_ok ''a1'' ''eng2'' ?w = (respond 403 ''Access denied'', ?w, [])"
    using tha [of "''eng2''"] own by simp
  have rv: "resendOTP_visit env_ok ''v1'' ''eng1'' ?w = (RateLimitError 55, ?w, [])"
    using thv [of "''eng1''"] own secs by simp
  have wording: "RateLimitError 50 =
       (respond 429 ''Please wait 50 seconds before requesting a new OTP'')
         \<lparr>retryAfter := Some 50\<rparr>"
    by (simp add: RateLimitError_def rateLimitReply_50)
  from ta tv scenario_appointment [of appt_sent ?v] appt_sent_fields(4) vs ra rb rv wording
  show ?thesis by (intro conjI)
qed

section \<open>Widget verification: the token check comes first\<close>

lemma widget_events:
  "eventsOf (verifyOTPWithWidget e ident accessToken userId w) = [] \<or>
   (\<exists>tok p. accessToken = Some tok \<and> tok \<noteq> [] \<and> verifyMSG91OTPToken e tok = Some p
      \<and> t_appointmentId p = Some ident
      \<and> eventsOf (verifyOTPWithWidget e ident accessToken userId w) = [HttpPost (VerifyAccessToken tok)])"
proof (cases accessToken)
  case None
  then show ?thesis by (simp add: verifyOTPWithWidget_def eventsOf_def)
next
  case (Some tok)
  show ?thesis
  proof (cases "tok = []")
    case True
    with Some show ?thesis by (simp add: verifyOTPWithWidget_def eventsOf_def)
  next
    case False
    show ?thesis
    proof (cases "verifyMSG91OTPToken e tok")
      case None
      with Some False show ?thesis by (simp add: verifyOTPWithWidget_def eventsOf_def)
    next
      case (Some p)
      with \<open>accessToken = Some tok\<close> False show ?thesis
        by (simp add: verifyOTPWithWidget_def eventsOf_def Let_def
            split: httpResult.split option.split)
    qed
  qed
qed

lemma widget_rejected:
  assumes "accessToken = Some tok"
    and "verifyMSG91OTPToken e tok = None \<or>
         (\<exists>p. verifyMSG91OTPToken e tok = Some p \<and> t_appointmentId p \<noteq> Some ident)"
  shows "httpStatus (replyOf (verifyOTPWithWidget e ident accessToken userId w)) = 400
       \<and> storeOf (verifyOTPWithWidget e ident accessToken userId w) = w
       \<and> eventsOf (verifyOTPWithWidget e ident accessToken userId w) = []"
  using assms
  by (cases "tok = []")
     (auto simp add: verifyOTPWithWidget_def eventsOf_def storeOf_def replyOf_def respond_def)

lemma visit_widget_events:
  "eventsOf (submitWorkerCountWithWidget e ident accessToken workerCount remarks userId w) = [] \<or>
   (\<exists>tok p. accessToken = Some tok \<and> tok \<noteq> [] \<and> verifyMSG91OTPToken e tok = Some p
      \<and> t_visitId p = Some ident
      \<and> eventsOf (submitWorkerCountWithWidget e ident accessToken workerCount remarks userId w)
          = [HttpPost (VerifyAccessToken tok)])"
proof (cases accessToken)
  case None
  then show ?thesis by (simp add: submitWorkerCountWithWidget_def eventsOf_def)
next
  case (Some tok)
  show ?thesis
  proof (cases "tok = [] \<or> falsyNum workerCount \<or> the workerCount \<le> 0")
    case True
    with Some show ?thesis by (auto simp add: submitWorkerCountWithWidget_def eventsOf_def)
  next
    case False
    show ?thesis
    proof (cases "verifyMSG91OTPToken e tok")
      case None
      with Some False show ?thesis by (simp add: submitWorkerCountWithWidget_def eventsOf_def)
    next
      case (Some p)
      with \<open>accessToken = Some tok\<close> False show ?thesis
        by (simp add: submitWorkerCountWithWidget_def eventsOf_def Let_def
            split: httpResult.split option.split)
    qed
  qed
qed

lemma visit_widget_rejected:
  assumes "accessToken = Some tok"
    and "verifyMSG91OTPToken e tok = None \<or>
         (\<exists>p. verifyMSG91OTPToken e tok = Some p \<and> t_visitId p \<noteq> Some ident)"
  shows "httpStatus (replyOf (submitWorkerCountWithWidget e ident accessToken workerCount remarks userId w)) = 400
       \<and> storeOf (submitWorkerCountWithWidget e ident accessToken workerCount remarks userId w) = w
       \<and> eventsOf (submitWorkerCountWithWidget e ident accessToken workerCount remarks userId w) = []"
  using assms
  by (cases "tok = [] \<or> falsyNum workerCount \<or> the workerCount \<le> 0")
     (auto simp add: submitWorkerCountWithWidget_def eventsOf_def storeOf_def replyOf_def
        respond_def)

lemma env_ok_tokens:
  "verifyMSG91OTPToken env_ok ''tok-a1'' =
     Some \<lparr>t_phone = ''919876543210'', t_appointmentId = Some ''a1'', t_visitId = None,
           t_purpose = ''appointment''\<rparr>"
  "verifyMSG91OTPToken env_ok ''tok-v1'' =
     Some \<lparr>t_phone = ''919876543210'', t_appointmentId = None, t_visitId = Some ''v1'',
           t_purpose = ''worker_visit''\<rparr>"
  "verifyMSG91OTPToken env_ok ''expired-token'' = None"
  by (simp_all add: verifyMSG91OTPToken_def env_ok_def)

text \<open>
  Claim C8. For every widget-verify call (\<open>verifyOTPWithWidget\<close> for appointments,
  \<open>submitWorkerCountWithWidget\<close> for worker visits): when the access token does not
  decode (malformed or expired) or decodes to an id different from the path parameter,
  the call is answered with status 400, the store is unchanged and no request is made to
  the provider; and whenever the call makes a request to the provider, the access token
  decoded to the path parameter's id, and that request (the token verification) is the
  only one.
\<close>

theorem C8_provider_called_only_after_token_check:
  "((accessToken = Some tok \<and>
       (verifyMSG91OTPToken e tok = None \<or>
        (\<exists>p. verifyMSG91OTPToken e tok = Some p \<and> t_appointmentId p \<noteq> Some ident))) \<longrightarrow>
      httpStatus (replyOf (verifyOTPWithWidget e ident accessToken userId w)) = 400
      \<and> storeOf (verifyOTPWithWidget e ident accessToken userId w) = w
      \<and> eventsOf (verifyOTPWithWidget e ident accessToken userId w) = [])
   \<and> (eventsOf (verifyOTPWithWidget e ident accessToken userId w) \<noteq> [] \<longrightarrow>
        (\<exists>t p. accessToken = Some t \<and> verifyMSG91OTPToken e t = Some p
           \<and> t_appointmentId p = Some ident
           \<and> eventsOf (verifyOTPWithWidget e ident accessToken userId w)
               = [HttpPost (VerifyAccessToken t)]))
   \<and> ((accessToken = Some tok \<and>
       (verifyMSG91OTPToken e tok = None \<or>
        (\<exists>p. verifyMSG91OTPToken e tok = Some p \<and> t_visitId p \<noteq> Some ident))) \<longrightarrow>
      httpStatus (replyOf (submitWorkerCountWithWidget e ident accessToken workerCount remarks userId w)) = 400
      \<and> storeOf (submitWorkerCountWithWidget e ident accessToken workerCount remarks userId w) = w
      \<and> eventsOf (submitWorkerCountWithWidget e ident accessToken workerCount remarks userId w) = [])
   \<and> (eventsOf (submitWorkerCountWithWidget e ident accessToken workerCount remarks userId w) \<noteq> [] \<longrightarrow>
        (\<exists>t p. accessToken = Some t \<and> verifyMSG91OTPToken e t = Some p
           \<and> t_visitId p = Some ident
           \<and> eventsOf (submitWorkerCountWithWidget e ident accessToken workerCount remarks userId w)
               = [HttpPost (VerifyAccessToken t)]))"
  using widget_events [of e ident accessToken userId w]
    widget_rejected [of accessToken tok e ident userId w]
    visit_widget_events [of e ident accessToken workerCount remarks userId w]
    visit_widget_rejected [of accessToken tok e ident workerCount remarks userId w]
  by blast

theorem C8_provider_called_only_after_token_check_witness:
  "verifyMSG91OTPToken env_ok ''expired-token'' = None
   \<and> map_option t_appointmentId (verifyMSG91OTPToken env_ok ''tok-v1'') = Some None
   \<and> map_option t_visitId (verifyMSG91OTPToken env_ok ''tok-a1'') = Some None
   \<and> eventsOf (verifyOTPWithWidget env_ok ''a1'' (Some ''expired-token'') ''eng1''
         (world_with appt_sent visit0)) = []
   \<and> httpStatus (replyOf (verifyOTPWithWidget env_ok ''a1'' (Some ''tok-v1'') ''eng1''
         (world_with appt_sent visit0))) = 400
   \<and> eventsOf (verifyOTPWithWidget env_ok ''a1'' (Some ''tok-v1'') ''eng1''
         (world_with appt_sent visit0)) = []
   \<and> eventsOf (submitWorkerCountWithWidget env_ok ''v1'' (Some ''tok-a1'') (Some 12) None ''eng1''
         (world_with appt_sent visit0)) = []
   \<and> eventsOf (verifyOTPWithWidget env_ok ''a1'' (Some ''tok-a1'') ''eng1''
         (world_with appt_sent visit0)) = [HttpPost (VerifyAccessToken ''tok-a1'')]"
proof -
  let ?w = "world_with appt_sent visit0"
  note bad = C8_provider_called_only_after_token_check
    [of "Some ''expired-token''" "''expired-token''" env_ok "''a1''" "''eng1''" ?w "Some 12" None]
  note other = C8_provider_called_only_after_token_check
    [of "Some ''tok-v1''" "''tok-v1''" env_ok "''a1''" "''eng1''" ?w "Some 12" None]
  note otherv = C8_provider_called_only_after_token_check
    [of "Some ''tok-a1''" "''tok-a1''" env_ok "''v1''" "''eng1''" ?w "Some 12" None]
  have ev: "eventsOf (verifyOTPWithWidget env_ok ''a1'' (Some ''tok-a1'') ''eng1'' ?w)
              = [HttpPost (VerifyAccessToken ''tok-a1'')]"
    by (simp add: verifyOTPWithWidget_def env_ok_tokens eventsOf_def world_with_def
        appt_sent_def appt0_def Let_def)
       (simp add: env_ok_def okResponse_def)
  from bad other otherv ev show ?thesis by (simp add: env_ok_tokens)
qed

section \<open>Widget verification: what a success writes\<close>

lemma widget_success:
  assumes "appointments w ident = Some a" and "engineerId a = userId"
    and "tok \<noteq> []" and "verifyMSG91OTPToken e tok = Some p"
    and "t_appointmentId p = Some ident"
    and "httpPost e (VerifyAccessToken tok) = Response d" and "r_type d = ''success''"
  shows "verifyOTPWithWidget e ident (Some tok) userId w =
           (respond 200 ''OTP verified successfully'',
            w\<lparr>appointments := (appointments w)(ident \<mapsto>
               a\<lparr>status := VERIFIED, verifiedAt := Some (now e), otpAttempts := 0\<rparr>)\<rparr>,
            [HttpPost (VerifyAccessToken tok)])"
  using assms by (simp add: verifyOTPWithWidget_def Let_def)

lemma env_ok_provider: "httpPost env_ok req = Response okResponse" "r_type okResponse = ''success''"
  by (simp_all add: env_ok_def okResponse_def)

text \<open>
  Claim C9. For every appointment owned by the caller, a widget verification whose token
  decodes to the appointment's id and which the provider reports as a success replaces
  the row by the old row with \<open>status = VERIFIED\<close>, \<open>verifiedAt\<close> the current time
  and \<open>otpAttempts = 0\<close>; the stored \<open>otp\<close> and \<open>otpExpiresAt\<close> are left as they
  were, and the outcome is the same whatever values \<open>x\<close>, \<open>y\<close> these two fields
  hold (they are not read). The inline path, on a success with the stored code, sets
  \<open>otpAttempts\<close> to its old value plus one instead.
\<close>

theorem C9_widget_verification_frame:
  assumes "appointments w ident = Some a" and "engineerId a = userId"
    and "tok \<noteq> []" and "verifyMSG91OTPToken e tok = Some p"
    and "t_appointmentId p = Some ident"
    and "httpPost e (VerifyAccessToken tok) = Response d" and "r_type d = ''success''"
  shows "verifyOTPWithWidget e ident (Some tok) userId w =
           (respond 200 ''OTP verified successfully'',
            w\<lparr>appointments := (appointments w)(ident \<mapsto>
               a\<lparr>status := VERIFIED, verifiedAt := Some (now e), otpAttempts := 0\<rparr>)\<rparr>,
            [HttpPost (VerifyAccessToken tok)])
       \<and> otp (a\<lparr>status := VERIFIED, verifiedAt := Some (now e), otpAttempts := 0\<rparr>) = otp a
       \<and> otpExpiresAt (a\<lparr>status := VERIFIED, verifiedAt := Some (now e), otpAttempts := 0\<rparr>)
           = otpExpiresAt a
       \<and> verifyOTPWithWidget e ident (Some tok) userId
            (w\<lparr>appointments := (appointments w)(ident \<mapsto> a\<lparr>otp := x, otpExpiresAt := y\<rparr>)\<rparr>) =
           (respond 200 ''OTP verified successfully'',
            w\<lparr>appointments := (appointments w)(ident \<mapsto>
               a\<lparr>otp := x, otpExpiresAt := y, status := VERIFIED, verifiedAt := Some (now e),
                 otpAttempts := 0\<rparr>)\<rparr>,
            [HttpPost (VerifyAccessToken tok)])
       \<and> ((otp a = Some stored \<and> stored \<noteq> [] \<and> otpExpiresAt a = Some t
             \<and> \<not> isOTPExpired e t \<and> otpAttempts a < 3) \<longrightarrow>
            verifyOTP e ident (Some stored) userId w =
              (respond 200 ''OTP verified successfully'',
               w\<lparr>appointments := (appointments w)(ident \<mapsto>
                  a\<lparr>status := VERIFIED, verifiedAt := Some (now e),
                    otpAttempts := otpAttempts a + 1\<rparr>)\<rparr>, []))"
proof (intro conjI impI)
  show "verifyOTPWithWidget e ident (Some tok) userId w =
           (respond 200 ''OTP verified successfully'',
            w\<lparr>appointments := (appointments w)(ident \<mapsto>
               a\<lparr>status := VERIFIED, verifiedAt := Some (now e), otpAttempts := 0\<rparr>)\<rparr>,
            [HttpPost (VerifyAccessToken tok)])"
    using assms by (rule widget_success)
next
  let ?a = "a\<lparr>otp := x, otpExpiresAt := y\<rparr>"
  let ?w = "w\<lparr>appointments := (appointments w)(ident \<mapsto> ?a)\<rparr>"
  have f: "appointments ?w ident = Some ?a" by simp
  have o: "engineerId ?a = userId" using assms(2) by simp
  from widget_success [OF f o assms(3-7)]
  show "verifyOTPWithWidget e ident (Some tok) userId ?w =
           (respond 200 ''OTP verified successfully'',
            w\<lparr>appointments := (appointments w)(ident \<mapsto>
               a\<lparr>otp := x, otpExpiresAt := y, status := VERIFIED, verifiedAt := Some (now e),
                 otpAttempts := 0\<rparr>)\<rparr>,
            [HttpPost (VerifyAccessToken tok)])"
    by simp
next
  assume h: "otp a = Some stored \<and> stored \<noteq> [] \<and> otpExpiresAt a = Some t
             \<and> \<not> isOTPExpired e t \<and> otpAttempts a < 3"
  then have s: "otp a = Some stored" "stored \<noteq> []" "otpExpiresAt a = Some t"
    "\<not> isOTPExpired e t" "otpAttempts a < 3"
    by simp_all
  show "verifyOTP e ident (Some stored) userId w =
              (respond 200 ''OTP verified successfully'',
               w\<lparr>appointments := (appointments w)(ident \<mapsto>
                  a\<lparr>status := VERIFIED, verifiedAt := Some (now e),
                    otpAttempts := otpAttempts a + 1\<rparr>)\<rparr>, [])"
    by (rule verifyOTP_accept [OF assms(1,2) s(1,2,3) s(2) s(4) s(5)]) simp
qed simp_all

theorem C9_widget_verification_frame_witness:
  "appointments (world_with (appt_sent\<lparr>otpAttempts := 2\<rparr>) visit0) ''a1''
      = Some (appt_sent\<lparr>otpAttempts := 2\<rparr>)
   \<and> engineerId (appt_sent\<lparr>otpAttempts := 2\<rparr>) = ''eng1''
   \<and> map_option t_appointmentId (verifyMSG91OTPToken env_ok ''tok-a1'') = Some (Some ''a1'')
   \<and> httpPost env_ok (VerifyAccessToken ''tok-a1'') = Response okResponse
   \<and> r_type okResponse = ''success''
   \<and> verifyOTPWithWidget env_ok ''a1'' (Some ''tok-a1'') ''eng1''
        (world_with (appt_sent\<lparr>otpAttempts := 2\<rparr>) visit0) =
       (respond 200 ''OTP verified successfully'',
        (world_with (appt_sent\<lparr>otpAttempts := 2\<rparr>) visit0)\<lparr>appointments :=
           [''a1'' \<mapsto> appt_sent\<lparr>status := VERIFIED, verifiedAt := Some 1000000,
                                 otpAttempts := 0\<rparr>]\<rparr>,
        [HttpPost (VerifyAccessToken ''tok-a1'')])
   \<and> verifyOTP env_ok ''a1'' (Some ''123456'') ''eng1''
        (world_with (appt_sent\<lparr>otpAttempts := 2\<rparr>) visit0) =
       (respond 200 ''OTP verified successfully'',
        (world_with (appt_sent\<lparr>otpAttempts := 2\<rparr>) visit0)\<lparr>appointments :=
           [''a1'' \<mapsto> appt_sent\<lparr>status := VERIFIED, verifiedAt := Some 1000000,
                                 otpAttempts := 3\<rparr>]\<rparr>,
        [])"
proof -
  let ?a = "appt_sent\<lparr>otpAttempts := 2\<rparr>"
  have ne: "''tok-a1'' \<noteq> []" by simp
  have id: "t_appointmentId \<lparr>t_phone = ''919876543210'', t_appointmentId = Some ''a1'',
              t_visitId = None, t_purpose = ''appointment''\<rparr> = Some ''a1''" by simp
  note th = C9_widget_verification_frame [where stored = "''123456''" and t = 1890000,
      OF scenario_appointment [of ?a visit0]
      appt_sent_attempts_fields(1) ne env_ok_tokens(1) id env_ok_provider]
  have n: "now env_ok = 1000000" by (simp add: env_ok_def)
  have tbl: "appointments (world_with ?a visit0) = [''a1'' \<mapsto> ?a]"
    by (simp add: world_with_def)
  from th show ?thesis
    by (simp add: scenario_appointment appt_sent_attempts_fields env_ok_tokens env_ok_provider
        env_ok_not_expired n tbl)
qed

section \<open>Resending the OTP of a worker visit\<close>

text \<open>
  Past the ownership, status and cooldown guards, \<open>resendOTP\<close> for worker visits
  writes the new OTP fields exactly when the delivery to the client succeeded.
\<close>

lemma resendOTP_visit_after_cooldown:
  assumes "workerVisits w ident = Some v" and "v_engineerId v = userId"
    and "v_status v \<noteq> VISIT_COMPLETED" and "v_otpSentAt v = Some t"
    and "60 * 1000 \<le> now e - t"
  shows "workerVisits (storeOf (resendOTP_visit e ident userId w)) =
           (if fst (sendWorkerCountOTPToClient e (v_clientPrimaryContact v) (generateOTP e)
                      (v_clientName v) (formatDate e (v_visitDate v)))
            then (workerVisits w)(ident \<mapsto>
                   v\<lparr>v_otp := Some (generateOTP e),
                     v_otpExpiresAt := Some (getWorkerVisitOTPExpiry e),
                     v_otpSentAt := Some (now e), v_status := PENDING\<rparr>)
            else workerVisits w)"
    and "httpStatus (replyOf (resendOTP_visit e ident userId w)) =
           (if fst (sendWorkerCountOTPToClient e (v_clientPrimaryContact v) (generateOTP e)
                      (v_clientName v) (formatDate e (v_visitDate v)))
            then 200 else 500)"
proof -
  obtain sentC logs1 evs1 where c: "sendWorkerCountOTPToClient e (v_clientPrimaryContact v)
      (generateOTP e) (v_clientName v) (formatDate e (v_visitDate v)) = (sentC, logs1, evs1)"
    by (rule prod_cases3)
  obtain sentA logs2 evs2 where a: "(if adminPhoneOf e w \<noteq> [] then
        sendWorkerCountOTPToAdmin e (adminPhoneOf e w) (generateOTP e) (v_engineerName v)
          (v_clientName v) (formatDate e (v_visitDate v))
      else (False, [], [])) = (sentA, logs2, evs2)"
    by (rule prod_cases3)
  note rl = rateLimited_elapsed [OF assms(5)]
  show "workerVisits (storeOf (resendOTP_visit e ident userId w)) =
           (if fst (sendWorkerCountOTPToClient e (v_clientPrimaryContact v) (generateOTP e)
                      (v_clientName v) (formatDate e (v_visitDate v)))
            then (workerVisits w)(ident \<mapsto>
                   v\<lparr>v_otp := Some (generateOTP e),
                     v_otpExpiresAt := Some (getWorkerVisitOTPExpiry e),
                     v_otpSentAt := Some (now e), v_status := PENDING\<rparr>)
            else workerVisits w)"
    using assms(1-4) rl c a
    by (simp add: resendOTP_visit_def Let_def storeOf_def addLogs_def)
  show "httpStatus (replyOf (resendOTP_visit e ident userId w)) =
           (if fst (sendWorkerCountOTPToClient e (v_clientPrimaryContact v) (generateOTP e)
                      (v_clientName v) (formatDate e (v_visitDate v)))
            then 200 else 500)"
    using assms(1-4) rl c a
    by (simp add: resendOTP_visit_def Let_def replyOf_def respond_def)
qed

text \<open>
  The visit of the scenario reaches \<open>OTP_VERIFIED\<close> through \<open>submitWorkerCount\<close>
  with its stored code and a worker count of 12.
\<close>

lemma scenario_count_recorded:
  "submitWorkerCount env_ok ''v1'' (Some ''654321'') (Some 12) None ''eng1''
     (world_with appt0 visit0) =
   (respond 200 ''Worker count submitted successfully'',
    world_with appt0 (visit0\<lparr>v_workerCount := Some 12, v_status := OTP_VERIFIED,
                              v_verifiedAt := Some 1000000\<rparr>),
    [])"
  by (simp add: submitWorkerCount_def recordCount_def world_with_def visit0_def isOTPExpired_def
      env_ok_def testOTP_def)

lemma client_delivery_env_ok:
  "fst (sendWorkerCountOTPToClient env_ok ''98765 43210'' ''123456'' ''Site A'' ''Nov 20, 2025'')"
  by (simp add: sendWorkerCountOTPToClient_def sendOTPViaMSG91_def normalize_scenario env_ok_def
      okResponse_def Let_def)

text \<open>
  Claim C10. For every worker visit whose status is \<open>OTP_VERIFIED\<close>, a resend by the
  owning engineer passes the status guard; when at least 60 seconds have elapsed since
  the last send and the delivery to the client succeeds, the call succeeds and replaces
  the row by the old row with the new \<open>otp\<close>, \<open>otpExpiresAt\<close> and \<open>otpSentAt\<close>
  and with the status \<open>PENDING\<close>; the recorded worker count stays in the row. The
  same visit with the status \<open>COMPLETED\<close> is rejected by the guard.
\<close>

theorem C10_resend_reverts_verified_visit:
  assumes "workerVisits w ident = Some v" and "v_engineerId v = userId"
    and "v_status v = OTP_VERIFIED" and "v_otpSentAt v = Some t"
    and "60 * 1000 \<le> now e - t"
    and "fst (sendWorkerCountOTPToClient e (v_clientPrimaryContact v) (generateOTP e)
                (v_clientName v) (formatDate e (v_visitDate v)))"
  shows "httpStatus (replyOf (resendOTP_visit e ident userId w)) = 200
       \<and> workerVisits (storeOf (resendOTP_visit e ident userId w)) =
           (workerVisits w)(ident \<mapsto>
              v\<lparr>v_otp := Some (generateOTP e),
                v_otpExpiresAt := Some (getWorkerVisitOTPExpiry e),
                v_otpSentAt := Some (now e), v_status := PENDING\<rparr>)
       \<and> v_workerCount (v\<lparr>v_otp := Some (generateOTP e),
                v_otpExpiresAt := Some (getWorkerVisitOTPExpiry e),
                v_otpSentAt := Some (now e), v_status := PENDING\<rparr>) = v_workerCount v
       \<and> resendOTP_visit e ident userId
            (w\<lparr>workerVisits := (workerVisits w)(ident \<mapsto> v\<lparr>v_status := VISIT_COMPLETED\<rparr>)\<rparr>) =
           (respond 400 ''Worker count already submitted for this visit'',
            w\<lparr>workerVisits := (workerVisits w)(ident \<mapsto> v\<lparr>v_status := VISIT_COMPLETED\<rparr>)\<rparr>,
            [])"
proof -
  have nc: "v_status v \<noteq> VISIT_COMPLETED" using assms(3) by simp
  have rejected: "resendOTP_visit e ident userId
            (w\<lparr>workerVisits := (workerVisits w)(ident \<mapsto> v\<lparr>v_status := VISIT_COMPLETED\<rparr>)\<rparr>) =
           (respond 400 ''Worker count already submitted for this visit'',
            w\<lparr>workerVisits := (workerVisits w)(ident \<mapsto> v\<lparr>v_status := VISIT_COMPLETED\<rparr>)\<rparr>,
            [])"
    using assms(2) by (simp add: resendOTP_visit_def)
  from resendOTP_visit_after_cooldown [OF assms(1,2) nc assms(4,5)] assms(6) rejected
  show ?thesis by simp
qed

theorem C10_resend_reverts_verified_visit_witness:
  "workerVisits (world_with appt0 (visit0\<lparr>v_workerCount := Some 12, v_status := OTP_VERIFIED,
        v_verifiedAt := Some 1000000\<rparr>)) ''v1''
     = Some (visit0\<lparr>v_workerCount := Some 12, v_status := OTP_VERIFIED,
        v_verifiedAt := Some 1000000\<rparr>)
   \<and> v_status (visit0\<lparr>v_workerCount := Some 12, v_status := OTP_VERIFIED,
        v_verifiedAt := Some 1000000\<rparr>) = OTP_VERIFIED
   \<and> 60 * 1000 \<le> now env_ok - 100000
   \<and> httpStatus (replyOf (resendOTP_visit env_ok ''v1'' ''eng1''
        (world_with appt0 (visit0\<lparr>v_workerCount := Some 12, v_status := OTP_VERIFIED,
        v_verifiedAt := Some 1000000\<rparr>)))) = 200
   \<and> workerVisits (storeOf (resendOTP_visit env_ok ''v1'' ''eng1''
        (world_with appt0 (visit0\<lparr>v_workerCount := Some 12, v_status := OTP_VERIFIED,
        v_verifiedAt := Some 1000000\<rparr>)))) ''v1''
       = Some (visit0\<lparr>v_otp := Some ''123456'', v_otpSentAt := Some 1000000,
                 v_otpExpiresAt := Some 87400000, v_status := PENDING,
                 v_workerCount := Some 12, v_verifiedAt := Some 1000000\<rparr>)"
proof -
  let ?v = "visit0\<lparr>v_workerCount := Some 12, v_status := OTP_VERIFIED,
        v_verifiedAt := Some 1000000\<rparr>"
  have f: "v_engineerId ?v = ''eng1''" "v_status ?v = OTP_VERIFIED"
    "v_otpSentAt ?v = Some 100000"
    by (simp_all add: visit0_def)
  have n: "60 * 1000 \<le> now env_ok - 100000" by (simp add: env_ok_def)
  have g: "v_clientPrimaryContact ?v = ''98765 43210''" "v_clientName ?v = ''Site A''"
    "formatDate env_ok (v_visitDate ?v) = ''Nov 20, 2025''"
    by (simp_all add: visit0_def env_ok_def)
  have d: "fst (sendWorkerCountOTPToClient env_ok (v_clientPrimaryContact ?v)
      (generateOTP env_ok) (v_clientName ?v) (formatDate env_ok (v_visitDate ?v)))"
    by (simp only: g generateOTP_env_ok client_delivery_env_ok)
  have vals: "getWorkerVisitOTPExpiry env_ok = 87400000" "now env_ok = 1000000"
    by (simp_all add: getWorkerVisitOTPExpiry_def env_ok_def)
  from C10_resend_reverts_verified_visit [OF scenario_visit [of appt0 ?v] f n d]
  show ?thesis
    by (simp add: scenario_visit f vals generateOTP_env_ok visit0_def)
qed

section \<open>Status changes of terminal and verified appointments\<close>

text \<open>
  \<open>submitFeedback\<close> is the only handler that writes \<open>COMPLETED\<close>, and it changes
  nothing unless the appointment is \<open>VERIFIED\<close>.
\<close>

lemma submitFeedback_unless_verified:
  assumes "appointments w ident = Some a" and "status a \<noteq> VERIFIED"
  shows "storeOf (submitFeedback e ident fb userId w) = w"
  using assms by (simp add: submitFeedback_def storeOf_def)

lemma submitFeedback_completes:
  assumes "appointments w ident = Some a" and "engineerId a = userId"
    and "status a = VERIFIED" and "10 \<le> length (trim fbText)"
  shows "submitFeedback e ident (Some fbText) userId w =
           (respond 200 ''Feedback submitted successfully'',
            w\<lparr>appointments := (appointments w)(ident \<mapsto>
               a\<lparr>feedback := Some (trim fbText), status := COMPLETED\<rparr>)\<rparr>, [])"
proof -
  from assms(4) have "fbText \<noteq> []" by (auto simp add: trim_def)
  with assms show ?thesis by (simp add: submitFeedback_def)
qed

text \<open>
  Claim C1 at failing inputs. A \<open>COMPLETED\<close> appointment is set back to \<open>VERIFIED\<close>
  by a successful widget verification and by a successful inline verification (neither
  handler tests the status); a \<open>VERIFIED\<close> appointment is set back to \<open>OTP_SENT\<close>
  by a resend after the cooldown, and a \<open>CANCELLED\<close> appointment is set to
  \<open>OTP_SENT\<close> by a send (both handlers reject the status \<open>COMPLETED\<close> only).
\<close>

theorem C1_terminal_and_backward_status_changes:
  "map_option status (appointments (storeOf (verifyOTPWithWidget env_ok ''a1'' (Some ''tok-a1'')
      ''eng1'' (world_with (appt_sent\<lparr>status := COMPLETED\<rparr>) visit0))) ''a1'') = Some VERIFIED
   \<and> map_option status (appointments (storeOf (verifyOTP env_ok ''a1'' (Some ''123456'')
      ''eng1'' (world_with (appt_sent\<lparr>status := COMPLETED\<rparr>) visit0))) ''a1'') = Some VERIFIED
   \<and> map_option status (appointments (storeOf (sendOTP env_ok ''a1''
      ''eng1'' (world_with (appt_sent\<lparr>status := CANCELLED\<rparr>) visit0))) ''a1'') = Some OTP_SENT
   \<and> map_option status (appointments (storeOf (resendOTP env_ok ''a1''
      ''eng1'' (world_with (appt_sent\<lparr>status := VERIFIED, otpSentAt := Some 100000\<rparr>) visit0)))
      ''a1'') = Some OTP_SENT"
proof (intro conjI)
  show "map_option status (appointments (storeOf (verifyOTPWithWidget env_ok ''a1'' (Some ''tok-a1'')
      ''eng1'' (world_with (appt_sent\<lparr>status := COMPLETED\<rparr>) visit0))) ''a1'') = Some VERIFIED"
    by (simp add: verifyOTPWithWidget_def env_ok_tokens env_ok_provider storeOf_def
        world_with_def appt_sent_def appt0_def Let_def)
  show "map_option status (appointments (storeOf (verifyOTP env_ok ''a1'' (Some ''123456'')
      ''eng1'' (world_with (appt_sent\<lparr>status := COMPLETED\<rparr>) visit0))) ''a1'') = Some VERIFIED"
    by (simp add: verifyOTP_def env_ok_not_expired storeOf_def
        world_with_def appt_sent_def appt0_def)
  show "map_option status (appointments (storeOf (sendOTP env_ok ''a1''
      ''eng1'' (world_with (appt_sent\<lparr>status := CANCELLED\<rparr>) visit0))) ''a1'') = Some OTP_SENT"
    using sendVisitOTP_env_ok
    by (auto simp add: sendOTP_def storeOf_def world_with_def appt_sent_def appt0_def Let_def
        recipientPhone_def trim_scenario generateOTP_env_ok addLogs_def split: prod.split)
  have r: "rateLimited env_ok (Some 100000) = None"
    by (rule rateLimited_elapsed) (simp add: env_ok_def)
  show "map_option status (appointments (storeOf (resendOTP env_ok ''a1''
      ''eng1'' (world_with (appt_sent\<lparr>status := VERIFIED, otpSentAt := Some 100000\<rparr>) visit0)))
      ''a1'') = Some OTP_SENT"
    using sendVisitOTP_env_ok
    by (auto simp add: resendOTP_def storeOf_def world_with_def appt_sent_def appt0_def Let_def r
        recipientPhone_def trim_scenario generateOTP_env_ok addLogs_def
        split: prod.split)
qed

section \<open>Creating a worker visit\<close>

text \<open>
  An engineer's \<open>createVisit\<close> call that passes the checks, with a visit date that
  is a date, stores the visit with its OTP fields and answers with status 201, whatever
  the two deliveries return. With a visit date that is not a date, nothing is stored or
  delivered and the answer has status 500.
\<close>

lemma createVisit_stores_before_delivery:
  assumes "cid \<noteq> []" and "vd \<noteq> []" and "userId \<noteq> []"
    and "clients w cid = Some cl" and "c_isActive cl"
    and "users w userId = Some eng" and "u_role eng = ENGINEER" and "u_isActive eng"
    and "parseDate e vd = Some date"
  shows "httpStatus (replyOf (createVisit e (Some cid) engId (Some vd) sa userId ENGINEER w)) = 201"
    and "map_option (\<lambda>v. (v_otp v, v_otpExpiresAt v, v_otpSentAt v, v_status v))
           (workerVisits (storeOf (createVisit e (Some cid) engId (Some vd) sa userId ENGINEER w))
              (newId e))
         = Some (Some (generateOTP e), Some (getWorkerVisitOTPExpiry e), Some (now e), PENDING)"
  using assms
  by (simp_all add: createVisit_def Let_def replyOf_def storeOf_def addLogs_def respond_def
      split: prod.split)

lemma createVisit_invalid_date:
  assumes "cid \<noteq> []" and "vd \<noteq> []" and "userId \<noteq> []"
    and "clients w cid = Some cl" and "c_isActive cl"
    and "users w userId = Some eng" and "u_role eng = ENGINEER" and "u_isActive eng"
    and "parseDate e vd = None"
  shows "createVisit e (Some cid) engId (Some vd) sa userId ENGINEER w =
           (respond 500 ''Failed to create visit'', w, [OTPGenerated (generateOTP e)])"
  using assms by (simp add: createVisit_def Let_def)

lemma client_delivery_env_down:
  "\<not> fst (sendWorkerCountOTPToClient env_down ''98765 43210'' ''123456'' ''Site A'' ''Dec 01, 2025'')"
  by (simp add: sendWorkerCountOTPToClient_def sendOTPViaMSG91_def sendSMS_def
      normalize_scenario env_down_def env_ok_def Let_def)

text \<open>
  Claim C3 at a failing input. The engineer \<open>eng1\<close> creates a visit for the client
  \<open>c1\<close> while the provider cannot be reached, so the delivery to the client fails.
  The call is answered with status 201 and the success message, and the created row
  holds the OTP, its expiry and its send time.
\<close>

theorem C3_create_persists_otp_without_delivery:
  "\<not> fst (sendWorkerCountOTPToClient env_down ''98765 43210'' (generateOTP env_down) ''Site A''
            (formatDate env_down 1764547200000))
   \<and> replyOf (createVisit env_down (Some ''c1'') None (Some ''2025-12-01'') None ''eng1'' ENGINEER
        (world_with appt0 visit0)) = respond 201 ''Visit created and OTP sent to client and admin''
   \<and> map_option (\<lambda>v. (v_clientPrimaryContact v, v_otp v, v_otpExpiresAt v, v_otpSentAt v, v_status v))
        (workerVisits (storeOf (createVisit env_down (Some ''c1'') None (Some ''2025-12-01'') None
           ''eng1'' ENGINEER (world_with appt0 visit0))) ''v2'')
       = Some (''98765 43210'', Some ''123456'', Some 87400000, Some 1000000, PENDING)"
proof (intro conjI)
  have fd: "formatDate env_down 1764547200000 = ''Dec 01, 2025''"
    by (simp add: env_down_def env_ok_def)
  show "\<not> fst (sendWorkerCountOTPToClient env_down ''98765 43210'' (generateOTP env_down)
            ''Site A'' (formatDate env_down 1764547200000))"
    by (simp only: generateOTP_env_down fd client_delivery_env_down not_False_eq_True)
  have vals: "getWorkerVisitOTPExpiry env_down = 87400000" "now env_down = 1000000"
    "newId env_down = ''v2''" "parseDate env_down ''2025-12-01'' = Some 1764547200000"
    by (simp_all add: getWorkerVisitOTPExpiry_def env_down_def env_ok_def)
  show "replyOf (createVisit env_down (Some ''c1'') None (Some ''2025-12-01'') None ''eng1''
        ENGINEER (world_with appt0 visit0))
      = respond 201 ''Visit created and OTP sent to client and admin''"
    by (simp add: createVisit_def world_with_def Let_def replyOf_def vals split: prod.split)
  show "map_option (\<lambda>v. (v_clientPrimaryContact v, v_otp v, v_otpExpiresAt v, v_otpSentAt v, v_status v))
        (workerVisits (storeOf (createVisit env_down (Some ''c1'') None (Some ''2025-12-01'') None
           ''eng1'' ENGINEER (world_with appt0 visit0))) ''v2'')
       = Some (''98765 43210'', Some ''123456'', Some 87400000, Some 1000000, PENDING)"
    by (simp add: createVisit_def world_with_def Let_def storeOf_def addLogs_def vals
        generateOTP_env_down split: prod.split)
qed

end
